theory Spec2Isabelle
  imports Complex_Main "HOL-Library.Sublist" "HOL-Library.List_Lexorder" "HOL-Library.Char_ord"
begin

section \<open>Modelling conventions\<close>

text \<open>
  The development embeds the review pipeline of \<^verbatim>\<open>lib/reviews/normalize.ts\<close>,
  \<^verbatim>\<open>lib/reviews/store.ts\<close> and \<^verbatim>\<open>lib/reviews/types.ts\<close>.

  \<^item> A JavaScript \<^verbatim>\<open>number\<close> that carries a rating is a \<^typ>\<open>real\<close>: the corpus is
    JSON, so ratings are finite, and binary rounding of doubles is idealised away
    (arithmetic is exact). \<^verbatim>\<open>null\<close> and \<^verbatim>\<open>undefined\<close> are \<^term>\<open>None\<close>.
  \<^item> Identifiers and time values (milliseconds since the epoch) are \<^typ>\<open>int\<close>.
  \<^item> A string is a \<^typ>\<open>string\<close>, its characters standing for code units below 256;
    case conversion is the one of ASCII letters.
  \<^item> A JavaScript \<^verbatim>\<open>Map\<close> is an association list in insertion order, a \<^verbatim>\<open>Set\<close>
    a list whose duplicates are dropped.
  \<^item> Built-ins whose result depends on the host (date parsing and printing, collation,
    number parsing, URL parsing) are the fields of a record \<open>host\<close> that every
    function using them takes as its first argument.
\<close>

section \<open>Data model (types.ts)\<close>

datatype ReviewChannel = Airbnb | Booking | Google | Expedia | Flex | Vrbo | Direct | Other

datatype ReviewStatus = Published | Pending | Hidden | Archived

datatype ReviewType = GuestToHost | HostToGuest | GuestToGuest | HostToHost | Unknown

text \<open>The string each enumeration value is at run time.\<close>

fun channelCode :: "ReviewChannel \<Rightarrow> string" where
  "channelCode Airbnb = ''airbnb''"
| "channelCode Booking = ''booking''"
| "channelCode Google = ''google''"
| "channelCode Expedia = ''expedia''"
| "channelCode Flex = ''flex''"
| "channelCode Vrbo = ''vrbo''"
| "channelCode Direct = ''direct''"
| "channelCode Other = ''other''"

fun statusCode :: "ReviewStatus \<Rightarrow> string" where
  "statusCode Published = ''published''"
| "statusCode Pending = ''pending''"
| "statusCode Hidden = ''hidden''"
| "statusCode Archived = ''archived''"

fun typeCode :: "ReviewType \<Rightarrow> string" where
  "typeCode GuestToHost = ''guest-to-host''"
| "typeCode HostToGuest = ''host-to-guest''"
| "typeCode GuestToGuest = ''guest-to-guest''"
| "typeCode HostToHost = ''host-to-host''"
| "typeCode Unknown = ''unknown''"

record HostawayCategoryRating =
  hc_category :: string
  hc_rating :: "real option"

record HostawayReview =
  hr_id :: int
  hr_listingId :: int
  hr_listingName :: string
  hr_type :: "string option"
  hr_channel :: "string option"
  hr_status :: "string option"
  hr_rating :: "real option"
  hr_ratingScale :: "real option"
  hr_publicReview :: "string option"
  hr_privateReview :: "string option"
  hr_reviewCategory :: "HostawayCategoryRating list option"
  hr_submittedAt :: "string option"
  hr_guestName :: "string option"
  hr_managerResponse :: "string option"
  hr_tags :: "string list option"
  hr_publishOnFlex :: "bool option"

record NormalizedCategoryRating =
  nc_key :: string
  nc_label :: string
  nc_rating :: "real option"
  nc_scale :: real
  nc_normalizedRating :: "real option"

record NormalizedReview =
  nr_id :: string
  nr_sourceId :: int
  nr_listingId :: int
  nr_listingName :: string
  nr_listingSlug :: string
  nr_submittedAt :: string
  nr_channel :: ReviewChannel
  nr_type :: ReviewType
  nr_status :: ReviewStatus
  nr_guestName :: "string option"
  nr_publicReview :: "string option"
  nr_privateReview :: "string option"
  nr_managerResponse :: "string option"
  nr_rating :: "real option"
  nr_ratingScale :: real
  nr_normalizedRating :: "real option"
  nr_categoryRatings :: "NormalizedCategoryRating list"
  nr_tags :: "string list"
  nr_isApproved :: bool

record ListingChannelBreakdown =
  cb_channel :: ReviewChannel
  cb_label :: string
  cb_count :: nat
  cb_ratio :: real

record ListingCategoryAverages =
  ca_category :: string
  ca_average :: "real option"
  ca_scale :: real
  ca_normalizedAverage :: "real option"

record ListingTrendPoint =
  tp_period :: string
  tp_averageRating :: "real option"
  tp_normalizedAverage :: "real option"
  tp_reviewCount :: nat

record ListingReviewSummary =
  ls_listingId :: int
  ls_listingName :: string
  ls_listingSlug :: string
  ls_totalReviews :: nat
  ls_approvedReviews :: nat
  ls_lastReviewDate :: "string option"
  ls_averageRating :: "real option"
  ls_ratingScale :: real
  ls_normalizedAverageRating :: "real option"
  ls_channels :: "ListingChannelBreakdown list"
  ls_categoryAverages :: "ListingCategoryAverages list"
  ls_ratingTrend :: "ListingTrendPoint list"

record DateRange =
  dr_from :: "string option"
  dr_to :: "string option"

record CollectionMetrics =
  cm_totalReviews :: nat
  cm_approvedReviews :: nat
  cm_averageRating :: "real option"
  cm_ratingScale :: real
  cm_normalizedAverageRating :: "real option"
  cm_dateRange :: DateRange

record MetaDateRange =
  mdr_min :: "string option"
  mdr_max :: "string option"

record MetaFilters =
  mf_channels :: "ReviewChannel list"
  mf_reviewTypes :: "ReviewType list"
  mf_categories :: "string list"
  mf_statuses :: "ReviewStatus list"
  mf_dateRange :: MetaDateRange

record ResponseMeta =
  meta_generatedAt :: string
  meta_filters :: MetaFilters

record ResponseMetrics =
  metrics_overall :: CollectionMetrics
  metrics_filtered :: CollectionMetrics

record ReviewsResponse =
  resp_meta :: ResponseMeta
  resp_metrics :: ResponseMetrics
  resp_listings :: "ListingReviewSummary list"
  resp_reviews :: "NormalizedReview list"

section \<open>Host built-ins\<close>

text \<open>
  \<open>dateParse s\<close> is \<^verbatim>\<open>new Date(s).getTime()\<close>, \<^term>\<open>None\<close> for an invalid date (NaN);
  \<open>dateToISOString t\<close> is \<^verbatim>\<open>new Date(t).toISOString()\<close>; \<open>getUTCFullYear\<close> and
  \<open>getUTCMonth\<close> read a time value; \<open>localeCompare a b\<close> is \<^verbatim>\<open>a.localeCompare(b)\<close>;
  \<open>parseFloat\<close> and \<open>parseInt10\<close> are \<^verbatim>\<open>Number.parseFloat(s)\<close> and
  \<^verbatim>\<open>Number.parseInt(s, 10)\<close>, \<^term>\<open>None\<close> for NaN; \<open>urlSearchParams u\<close> lists the
  query parameters of \<^verbatim>\<open>new URL(u, "http://localhost")\<close> in order.
\<close>

record host =
  dateParse :: "string \<Rightarrow> int option"
  dateToISOString :: "int \<Rightarrow> string"
  getUTCFullYear :: "int \<Rightarrow> int"
  getUTCMonth :: "int \<Rightarrow> int"
  localeCompare :: "string \<Rightarrow> string \<Rightarrow> int"
  parseFloat :: "string \<Rightarrow> real option"
  parseInt10 :: "string \<Rightarrow> int option"
  urlSearchParams :: "string \<Rightarrow> (string \<times> string) list"

section \<open>Strings\<close>

definition isWhiteSpace :: "char \<Rightarrow> bool" where
  "isWhiteSpace c \<longleftrightarrow>
     c \<in> set [CHR 0x09, CHR 0x0A, CHR 0x0B, CHR 0x0C, CHR 0x0D, CHR 0x20, CHR 0xA0]"

text \<open>\<^verbatim>\<open>String.prototype.trim\<close>.\<close>

definition trim :: "string \<Rightarrow> string" where
  "trim s = rev (dropWhile isWhiteSpace (rev (dropWhile isWhiteSpace s)))"

definition lowerChar :: "char \<Rightarrow> char" where
  "lowerChar c =
     (case map_of (zip ''ABCDEFGHIJKLMNOPQRSTUVWXYZ'' ''abcdefghijklmnopqrstuvwxyz'') c of
        Some l \<Rightarrow> l
      | None \<Rightarrow> c)"

definition upperChar :: "char \<Rightarrow> char" where
  "upperChar c =
     (case map_of (zip ''abcdefghijklmnopqrstuvwxyz'' ''ABCDEFGHIJKLMNOPQRSTUVWXYZ'') c of
        Some u \<Rightarrow> u
      | None \<Rightarrow> c)"

definition toLowerCase :: "string \<Rightarrow> string" where
  "toLowerCase s = map lowerChar s"

text \<open>\<^verbatim>\<open>h.includes(n)\<close>: \<open>n\<close> occurs in \<open>h\<close> as a contiguous substring.\<close>

fun includesStr :: "string \<Rightarrow> string \<Rightarrow> bool" where
  "includesStr [] n = (n = [])"
| "includesStr (c # h) n = (prefix n (c # h) \<or> includesStr h n)"

text \<open>\<^verbatim>\<open>xs.join(" ")\<close>.\<close>

fun joinSpace :: "string list \<Rightarrow> string" where
  "joinSpace [] = []"
| "joinSpace [x] = x"
| "joinSpace (x # y # ys) = x @ '' '' @ joinSpace (y # ys)"

text \<open>\<^verbatim>\<open>s.split(sep)\<close> for a one-character separator.\<close>

fun splitOn :: "char \<Rightarrow> string \<Rightarrow> string list" where
  "splitOn sep [] = [[]]"
| "splitOn sep (c # cs) =
     (if c = sep then [] # splitOn sep cs
      else (case splitOn sep cs of
              [] \<Rightarrow> [[c]]
            | w # ws \<Rightarrow> (c # w) # ws))"

text \<open>\<^verbatim>\<open>String(n)\<close> for an integer below \<open>10^21\<close> in magnitude.\<close>

fun showNat :: "nat \<Rightarrow> string" where
  "showNat n =
     (if n < 10 then [''0123456789'' ! n]
      else showNat (n div 10) @ [''0123456789'' ! (n mod 10)])"

declare showNat.simps [simp del]

definition showInt :: "int \<Rightarrow> string" where
  "showInt i = (if i < 0 then CHR ''-'' # showNat (nat (- i)) else showNat (nat i))"

section \<open>Sanitizer\<close>

text \<open>\<^verbatim>\<open>CONTROL_CHARACTERS = /[\u0000-\u001F\u007F]/g\<close>.\<close>

definition isControl :: "char \<Rightarrow> bool" where
  "isControl c \<longleftrightarrow> (of_char c :: nat) \<le> 31 \<or> (of_char c :: nat) = 127"

text \<open>\<^verbatim>\<open>HTML_DANGEROUS_CHARS = /[<>"'`]/g\<close>.\<close>

definition isHtmlDangerous :: "char \<Rightarrow> bool" where
  "isHtmlDangerous c \<longleftrightarrow> c \<in> set [CHR ''<'', CHR ''>'', CHR 0x22, CHR 0x27, CHR 0x60]"

definition sanitizeText :: "string option \<Rightarrow> string option" where
  "sanitizeText v =
     (case v of
        None \<Rightarrow> None
      | Some s \<Rightarrow>
          if s = [] then None
          else let trimmed = trim s in
            if trimmed = [] then None
            else let withoutControl = filter (\<lambda>c. \<not> isControl c) trimmed in
              if withoutControl = [] then None
              else Some (filter (\<lambda>c. \<not> isHtmlDangerous c) withoutControl))"

definition sanitizeAndFallback :: "string option \<Rightarrow> string \<Rightarrow> string" where
  "sanitizeAndFallback v fallback =
     (case sanitizeText v of None \<Rightarrow> fallback | Some s \<Rightarrow> s)"

section \<open>Slugs and labels\<close>

definition isLowerAlnum :: "char \<Rightarrow> bool" where
  "isLowerAlnum c \<longleftrightarrow> c \<in> set ''abcdefghijklmnopqrstuvwxyz0123456789''"

text \<open>
  \<^verbatim>\<open>.replace(/[^a-z0-9]+/g, "-")\<close>: every maximal run of other characters becomes one
  hyphen. The flag says that the scan is inside such a run.
\<close>

fun hyphenate :: "bool \<Rightarrow> string \<Rightarrow> string" where
  "hyphenate inRun [] = []"
| "hyphenate inRun (c # cs) =
     (if isLowerAlnum c then c # hyphenate False cs
      else if inRun then hyphenate True cs
      else CHR ''-'' # hyphenate True cs)"

text \<open>
  \<^verbatim>\<open>.replace(/(^-|-$)+/g, "")\<close>: a hyphen at the start is removed, then a hyphen at
  the end of what is left.
\<close>

definition stripEdgeHyphens :: "string \<Rightarrow> string" where
  "stripEdgeHyphens s =
     (let s1 = (case s of [] \<Rightarrow> [] | c # cs \<Rightarrow> if c = CHR ''-'' then cs else c # cs)
      in if s1 \<noteq> [] \<and> last s1 = CHR ''-'' then butlast s1 else s1)"

definition toSlug :: "string \<Rightarrow> string" where
  "toSlug v =
     stripEdgeHyphens (hyphenate False (toLowerCase (sanitizeAndFallback (Some v) ''listing'')))"

text \<open>\<^verbatim>\<open>\w\<close> is \<^verbatim>\<open>[A-Za-z0-9_]\<close>.\<close>

definition isWordChar :: "char \<Rightarrow> bool" where
  "isWordChar c \<longleftrightarrow>
     c \<in> set ''abcdefghijklmnopqrstuvwxyzABCDEFGHIJKLMNOPQRSTUVWXYZ0123456789_''"

text \<open>
  \<^verbatim>\<open>.replace(/\b\w/g, (segment) => segment.toUpperCase())\<close>: a word character that
  follows no word character is upper-cased. The flag says that the previous character
  was a word character.
\<close>

fun capitalizeWords :: "bool \<Rightarrow> string \<Rightarrow> string" where
  "capitalizeWords prev [] = []"
| "capitalizeWords prev (c # cs) =
     (if isWordChar c
      then (if prev then c else upperChar c) # capitalizeWords True cs
      else c # capitalizeWords False cs)"

definition humanizeCategory :: "string \<Rightarrow> string" where
  "humanizeCategory key =
     capitalizeWords False
       (map (\<lambda>c. if c = CHR ''_'' then CHR '' '' else c) (sanitizeAndFallback (Some key) ''General''))"

section \<open>Enumerations\<close>

definition coerceChannel :: "string option \<Rightarrow> ReviewChannel" where
  "coerceChannel v =
     (case v of
        None \<Rightarrow> Other
      | Some s \<Rightarrow>
          if s = [] then Other
          else let normalized = toLowerCase s in
            if includesStr normalized ''airbnb'' then Airbnb
            else if includesStr normalized ''booking'' then Booking
            else if includesStr normalized ''google'' then Google
            else if includesStr normalized ''expedia'' then Expedia
            else if includesStr normalized ''vrbo'' then Vrbo
            else if includesStr normalized ''flex'' then Flex
            else if includesStr normalized ''direct'' then Direct
            else Other)"

text \<open>
  The two lookup objects are association lists of their own properties; the properties
  that a JavaScript object inherits (such as \<^verbatim>\<open>constructor\<close>) are not modelled, so
  that a raw value spelling one of them is outside the model.
\<close>

definition REVIEW_TYPE_FALLBACKS :: "(string \<times> ReviewType) list" where
  "REVIEW_TYPE_FALLBACKS =
     [(''guest-to-host'', GuestToHost), (''host-to-guest'', HostToGuest),
      (''guest-to-guest'', GuestToGuest), (''host-to-host'', HostToHost)]"

definition REVIEW_STATUS_FALLBACKS :: "(string \<times> ReviewStatus) list" where
  "REVIEW_STATUS_FALLBACKS =
     [(''published'', Published), (''pending'', Pending),
      (''hidden'', Hidden), (''archived'', Archived)]"

definition coerceType :: "string option \<Rightarrow> ReviewType" where
  "coerceType v =
     (case v of
        None \<Rightarrow> Unknown
      | Some s \<Rightarrow>
          if s = [] then Unknown
          else (case map_of REVIEW_TYPE_FALLBACKS (toLowerCase s) of
                  None \<Rightarrow> Unknown
                | Some t \<Rightarrow> t))"

definition coerceStatus :: "string option \<Rightarrow> ReviewStatus" where
  "coerceStatus v =
     (case v of
        None \<Rightarrow> Published
      | Some s \<Rightarrow>
          if s = [] then Published
          else (case map_of REVIEW_STATUS_FALLBACKS (toLowerCase s) of
                  None \<Rightarrow> Published
                | Some t \<Rightarrow> t))"

section \<open>Scale detection and normalization\<close>

definition DEFAULT_RATING_SCALE :: real where
  "DEFAULT_RATING_SCALE = 5"

definition NORMALIZED_TARGET_SCALE :: real where
  "NORMALIZED_TARGET_SCALE = 5"

text \<open>
  \<^verbatim>\<open>Number(x.toFixed(2))\<close>: the nearest multiple of one hundredth, a tie going away
  from zero; from \<open>10^21\<close> on \<^verbatim>\<open>toFixed\<close> prints the number itself.
\<close>

definition toFixed2 :: "real \<Rightarrow> real" where
  "toFixed2 x =
     (if \<bar>x\<bar> \<ge> 10 ^ 21 then x
      else if x < 0 then - (of_int \<lfloor>(- x) * 100 + 1 / 2\<rfloor> / 100)
      else of_int \<lfloor>x * 100 + 1 / 2\<rfloor> / 100)"

definition detectScale :: "real option \<Rightarrow> real option \<Rightarrow> real" where
  "detectScale rating ratingScale =
     (let byMagnitude =
            (case rating of
               None \<Rightarrow> DEFAULT_RATING_SCALE
             | Some r \<Rightarrow>
                 if r \<le> 5 then 5
                 else if r \<le> 10 then 10
                 else if r \<le> 20 then 20
                 else if r \<le> 100 then 100
                 else DEFAULT_RATING_SCALE)
      in case ratingScale of
           None \<Rightarrow> byMagnitude
         | Some s \<Rightarrow> if s \<noteq> 0 \<and> s > 0 then s else byMagnitude)"

definition normalizeValueToTarget :: "real option \<Rightarrow> real \<Rightarrow> real \<Rightarrow> real option" where
  "normalizeValueToTarget v scale targetScale =
     (case v of
        None \<Rightarrow> None
      | Some x \<Rightarrow>
          if scale \<le> 0 then None
          else Some (toFixed2 ((x / scale) * targetScale)))"

text \<open>The callback that \<^verbatim>\<open>normalizeCategories\<close> maps over the raw categories.\<close>

definition normalizeCategory :: "HostawayCategoryRating \<Rightarrow> NormalizedCategoryRating" where
  "normalizeCategory c =
     (let scale = detectScale (hc_rating c) None;
          normalized = normalizeValueToTarget (hc_rating c) scale NORMALIZED_TARGET_SCALE;
          safeKey = sanitizeAndFallback (Some (hc_category c)) ''other''
      in \<lparr> nc_key = safeKey,
           nc_label = humanizeCategory safeKey,
           nc_rating = hc_rating c,
           nc_scale = scale,
           nc_normalizedRating = normalized \<rparr>)"

definition normalizeCategories ::
  "HostawayCategoryRating list option \<Rightarrow> NormalizedCategoryRating list" where
  "normalizeCategories categories =
     (case categories of
        None \<Rightarrow> []
      | Some cs \<Rightarrow> if cs = [] then [] else map normalizeCategory cs)"

section \<open>Approval store (store.ts)\<close>

datatype ApprovalSource = Initial | Manager

record ApprovalRecord =
  ar_value :: bool
  ar_updatedAt :: string
  ar_source :: ApprovalSource

text \<open>\<^verbatim>\<open>Map.prototype.set\<close>: a key already present keeps its place.\<close>

fun mapSet :: "'k \<Rightarrow> 'v \<Rightarrow> ('k \<times> 'v) list \<Rightarrow> ('k \<times> 'v) list" where
  "mapSet k v [] = [(k, v)]"
| "mapSet k v ((k', v') # m) =
     (if k' = k then (k, v) # m else (k', v') # mapSet k v m)"

definition mapHas :: "('k \<times> 'v) list \<Rightarrow> 'k \<Rightarrow> bool" where
  "mapHas m k \<longleftrightarrow> map_of m k \<noteq> None"

type_synonym ApprovalsStore = "(string \<times> ApprovalRecord) list"

definition getApproval :: "ApprovalsStore \<Rightarrow> string \<Rightarrow> bool option" where
  "getApproval store i =
     (case map_of store i of None \<Rightarrow> None | Some record \<Rightarrow> Some (ar_value record))"

text \<open>The clock reading \<^verbatim>\<open>new Date().toISOString()\<close> is the argument \<open>now\<close>.\<close>

definition ensureInitialValue ::
  "string \<Rightarrow> ApprovalsStore \<Rightarrow> string \<Rightarrow> bool option \<Rightarrow> ApprovalsStore" where
  "ensureInitialValue now store i fallback =
     (if mapHas store i then store
      else case fallback of
             None \<Rightarrow> store
           | Some b \<Rightarrow>
               mapSet i \<lparr> ar_value = b, ar_updatedAt = now, ar_source = Initial \<rparr> store)"

definition setApproval :: "string \<Rightarrow> ApprovalsStore \<Rightarrow> string \<Rightarrow> bool \<Rightarrow> ApprovalsStore" where
  "setApproval now store i v =
     mapSet i \<lparr> ar_value = v, ar_updatedAt = now, ar_source = Manager \<rparr> store"

section \<open>Record normalizer\<close>

definition parseDate :: "host \<Rightarrow> string option \<Rightarrow> int option" where
  "parseDate H v =
     (case v of
        None \<Rightarrow> None
      | Some s \<Rightarrow> if s = [] then None else dateParse H s)"

definition toIsoString :: "host \<Rightarrow> int option \<Rightarrow> string option" where
  "toIsoString H d = (case d of None \<Rightarrow> None | Some t \<Rightarrow> Some (dateToISOString H t))"

definition normalizeReview :: "host \<Rightarrow> ApprovalsStore \<Rightarrow> HostawayReview \<Rightarrow> NormalizedReview" where
  "normalizeReview H store review =
     (let scale = detectScale (hr_rating review) (hr_ratingScale review);
          normalizedRating =
            normalizeValueToTarget (hr_rating review) scale NORMALIZED_TARGET_SCALE;
          normalizedCategories = normalizeCategories (hr_reviewCategory review);
          safeListingName =
            sanitizeAndFallback (Some (hr_listingName review)) ''Flex Living Listing'';
          slug = toSlug safeListingName;
          date = (case parseDate H (hr_submittedAt review) of None \<Rightarrow> 0 | Some t \<Rightarrow> t);
          approvalOverride = getApproval store (showInt (hr_id review))
      in \<lparr> nr_id = ''hostaway-'' @ showInt (hr_id review),
           nr_sourceId = hr_id review,
           nr_listingId = hr_listingId review,
           nr_listingName = safeListingName,
           nr_listingSlug = slug,
           nr_submittedAt = dateToISOString H date,
           nr_channel = coerceChannel (hr_channel review),
           nr_type = coerceType (hr_type review),
           nr_status = coerceStatus (hr_status review),
           nr_guestName = sanitizeText (hr_guestName review),
           nr_publicReview = sanitizeText (hr_publicReview review),
           nr_privateReview = sanitizeText (hr_privateReview review),
           nr_managerResponse = sanitizeText (hr_managerResponse review),
           nr_rating = hr_rating review,
           nr_ratingScale = scale,
           nr_normalizedRating = normalizedRating,
           nr_categoryRatings = normalizedCategories,
           nr_tags =
             List.map_filter
               (\<lambda>tag. case sanitizeText (Some tag) of
                         None \<Rightarrow> None
                       | Some t \<Rightarrow> if t = [] then None else Some t)
               (case hr_tags review of None \<Rightarrow> [] | Some ts \<Rightarrow> ts),
           nr_isApproved =
             (case approvalOverride of
                Some b \<Rightarrow> b
              | None \<Rightarrow>
                  (case hr_publishOnFlex review of
                     Some p \<Rightarrow> p
                   | None \<Rightarrow>
                       (case normalizedRating of
                          None \<Rightarrow> False
                        | Some n \<Rightarrow> n \<ge> 44 / 10))) \<rparr>)"

section \<open>Numbers in comparators and \<^verbatim>\<open>Array.prototype.sort\<close>\<close>

text \<open>
  A comparator computes with \<^verbatim>\<open>-Infinity\<close> and may return NaN, so its result is a
  number of this type.
\<close>

datatype JsNumber = Finite real | PosInfinity | NegInfinity | NaN

fun jsSub :: "JsNumber \<Rightarrow> JsNumber \<Rightarrow> JsNumber" where
  "jsSub NaN _ = NaN"
| "jsSub _ NaN = NaN"
| "jsSub (Finite a) (Finite b) = Finite (a - b)"
| "jsSub (Finite a) PosInfinity = NegInfinity"
| "jsSub (Finite a) NegInfinity = PosInfinity"
| "jsSub PosInfinity PosInfinity = NaN"
| "jsSub PosInfinity _ = PosInfinity"
| "jsSub NegInfinity NegInfinity = NaN"
| "jsSub NegInfinity _ = NegInfinity"

fun jsMul :: "JsNumber \<Rightarrow> JsNumber \<Rightarrow> JsNumber" where
  "jsMul NaN _ = NaN"
| "jsMul _ NaN = NaN"
| "jsMul (Finite a) (Finite b) = Finite (a * b)"
| "jsMul (Finite a) PosInfinity =
     (if a = 0 then NaN else if a > 0 then PosInfinity else NegInfinity)"
| "jsMul (Finite a) NegInfinity =
     (if a = 0 then NaN else if a > 0 then NegInfinity else PosInfinity)"
| "jsMul PosInfinity (Finite b) =
     (if b = 0 then NaN else if b > 0 then PosInfinity else NegInfinity)"
| "jsMul NegInfinity (Finite b) =
     (if b = 0 then NaN else if b > 0 then NegInfinity else PosInfinity)"
| "jsMul PosInfinity PosInfinity = PosInfinity"
| "jsMul PosInfinity NegInfinity = NegInfinity"
| "jsMul NegInfinity PosInfinity = NegInfinity"
| "jsMul NegInfinity NegInfinity = PosInfinity"

fun jsPositive :: "JsNumber \<Rightarrow> bool" where
  "jsPositive (Finite x) = (x > 0)"
| "jsPositive PosInfinity = True"
| "jsPositive NegInfinity = False"
| "jsPositive NaN = False"

text \<open>
  \<^verbatim>\<open>xs.sort(cmp)\<close>. ECMAScript requires the sort to be stable and, for a consistent
  comparator, to order \<open>a\<close> before \<open>b\<close> when \<open>cmp a b < 0\<close>; a result of zero or NaN
  leaves the two in their original order. Stable insertion computes that order: an
  element moves behind exactly the later elements it compares greater than.
\<close>

fun sortInsert :: "('a \<Rightarrow> 'a \<Rightarrow> JsNumber) \<Rightarrow> 'a \<Rightarrow> 'a list \<Rightarrow> 'a list" where
  "sortInsert cmp x [] = [x]"
| "sortInsert cmp x (y # ys) =
     (if jsPositive (cmp x y) then y # sortInsert cmp x ys else x # y # ys)"

definition arraySort :: "('a \<Rightarrow> 'a \<Rightarrow> JsNumber) \<Rightarrow> 'a list \<Rightarrow> 'a list" where
  "arraySort cmp xs = foldr (sortInsert cmp) xs []"

text \<open>\<^verbatim>\<open>new Date(s).getTime()\<close> as a number.\<close>

definition getTime :: "host \<Rightarrow> string \<Rightarrow> JsNumber" where
  "getTime H s = (case dateParse H s of None \<Rightarrow> NaN | Some t \<Rightarrow> Finite (of_int t))"

text \<open>\<^verbatim>\<open>Set.prototype.add\<close>.\<close>

definition setAdd :: "'a list \<Rightarrow> 'a \<Rightarrow> 'a list" where
  "setAdd xs x = (if x \<in> set xs then xs else xs @ [x])"

section \<open>Aggregator\<close>

fun CHANNEL_LABELS :: "ReviewChannel \<Rightarrow> string" where
  "CHANNEL_LABELS Airbnb = ''Airbnb''"
| "CHANNEL_LABELS Booking = ''Booking.com''"
| "CHANNEL_LABELS Google = ''Google''"
| "CHANNEL_LABELS Expedia = ''Expedia''"
| "CHANNEL_LABELS Vrbo = ''Vrbo''"
| "CHANNEL_LABELS Direct = ''Direct''"
| "CHANNEL_LABELS Flex = ''Flex Living''"
| "CHANNEL_LABELS Other = ''Other''"

text \<open>The test for NaN in the source's filter never fires on a \<^typ>\<open>real\<close>.\<close>

definition average :: "real option list \<Rightarrow> real option" where
  "average vs =
     (let filtered = List.map_filter (\<lambda>v. v) vs
      in if filtered = [] then None
         else Some (toFixed2 (foldl (+) 0 filtered / of_nat (length filtered))))"

definition buildChannelBreakdown :: "NormalizedReview list \<Rightarrow> ListingChannelBreakdown list" where
  "buildChannelBreakdown reviews =
     (if reviews = [] then []
      else
        let counts =
              foldl
                (\<lambda>m review.
                   mapSet (nr_channel review)
                     ((case map_of m (nr_channel review) of None \<Rightarrow> 0 | Some n \<Rightarrow> n) + 1) m)
                [] reviews
        in map (\<lambda>(channel, count).
                  \<lparr> cb_channel = channel,
                    cb_label = CHANNEL_LABELS channel,
                    cb_count = count,
                    cb_ratio = toFixed2 (of_nat count / of_nat (length reviews)) \<rparr>)
               counts)"

text \<open>
  One step of the inner loop of \<^verbatim>\<open>buildCategoryAverages\<close> on the map \<open>tracked\<close>, whose
  entries are the pairs (scale, values). The key is present when the entry is read, so
  the branch for a missing entry is never taken.
\<close>

definition trackCategory ::
  "(string \<times> real \<times> real list) list \<Rightarrow> NormalizedCategoryRating \<Rightarrow>
   (string \<times> real \<times> real list) list" where
  "trackCategory tracked category =
     (let t1 = (if \<not> mapHas tracked (nc_key category)
                then mapSet (nc_key category) (nc_scale category, []) tracked
                else tracked)
      in case nc_normalizedRating category of
           None \<Rightarrow> t1
         | Some v \<Rightarrow>
             (case map_of t1 (nc_key category) of
                None \<Rightarrow> t1
              | Some (scale, vals) \<Rightarrow> mapSet (nc_key category) (scale, vals @ [v]) t1))"

text \<open>The two nested loops of \<^verbatim>\<open>buildCategoryAverages\<close>, which fill the map.\<close>

definition trackAll :: "NormalizedReview list \<Rightarrow> (string \<times> real \<times> real list) list" where
  "trackAll reviews =
     foldl (\<lambda>tracked review. foldl trackCategory tracked (nr_categoryRatings review)) [] reviews"

text \<open>The callback that turns an entry of the map into an output entry.\<close>

definition categoryEntry :: "string \<times> real \<times> real list \<Rightarrow> ListingCategoryAverages" where
  "categoryEntry e =
     (case e of (key, scale, vals) \<Rightarrow>
        let normalizedAverage = average (map Some vals)
        in \<lparr> ca_category = humanizeCategory key,
             ca_average =
               (case normalizedAverage of
                  None \<Rightarrow> None
                | Some a \<Rightarrow> Some (toFixed2 ((a / NORMALIZED_TARGET_SCALE) * scale))),
             ca_scale = scale,
             ca_normalizedAverage = normalizedAverage \<rparr>)"

definition buildCategoryAverages :: "NormalizedReview list \<Rightarrow> ListingCategoryAverages list" where
  "buildCategoryAverages reviews = map categoryEntry (trackAll reviews)"

text \<open>\<^verbatim>\<open>s.padStart(2, "0")\<close>.\<close>

definition padStart2 :: "string \<Rightarrow> string" where
  "padStart2 s = replicate (2 - length s) CHR ''0'' @ s"

text \<open>The bucket key of a review; an invalid date prints NaN for year and month.\<close>

definition periodOf :: "host \<Rightarrow> NormalizedReview \<Rightarrow> string" where
  "periodOf H review =
     (case dateParse H (nr_submittedAt review) of
        None \<Rightarrow> ''NaN-NaN''
      | Some t \<Rightarrow> showInt (getUTCFullYear H t) @ ''-'' @ padStart2 (showInt (getUTCMonth H t + 1)))"

definition buildTrend :: "host \<Rightarrow> NormalizedReview list \<Rightarrow> ListingTrendPoint list" where
  "buildTrend H reviews =
     (if reviews = [] then []
      else
        let buckets =
              foldl
                (\<lambda>b review.
                   let period = periodOf H review;
                       b1 = (if \<not> mapHas b period then mapSet period [] b else b)
                   in case map_of b1 period of
                        None \<Rightarrow> b1
                      | Some rs \<Rightarrow> mapSet period (rs @ [review]) b1)
                [] reviews
        in map (\<lambda>(period, periodReviews).
                  let normalizedAverage = average (map nr_normalizedRating periodReviews)
                  in \<lparr> tp_period = period,
                       tp_averageRating = normalizedAverage,
                       tp_normalizedAverage = normalizedAverage,
                       tp_reviewCount = length periodReviews \<rparr>)
               (arraySort (\<lambda>(a, _) (b, _). if a > b then Finite 1 else Finite (- 1)) buckets))"

text \<open>The loop of \<^verbatim>\<open>buildListingSummaries\<close> that groups the reviews by listing id.\<close>

definition groupByListing ::
  "NormalizedReview list \<Rightarrow> (int \<times> NormalizedReview \<times> NormalizedReview list) list" where
  "groupByListing reviews =
     foldl
       (\<lambda>g review.
          let g1 = (if \<not> mapHas g (nr_listingId review)
                    then mapSet (nr_listingId review) (review, []) g
                    else g)
          in case map_of g1 (nr_listingId review) of
               None \<Rightarrow> g1
             | Some (info, rs) \<Rightarrow> mapSet (nr_listingId review) (info, rs @ [review]) g1)
       [] reviews"

text \<open>The callback that turns a group into its summary.\<close>

definition summarize ::
  "host \<Rightarrow> NormalizedReview \<times> NormalizedReview list \<Rightarrow> ListingReviewSummary" where
  "summarize H g =
     (case g of (info, listingReviews) \<Rightarrow>
        let normalizedAverage = average (map nr_normalizedRating listingReviews);
            sortedByDate =
              arraySort
                (\<lambda>a b. jsSub (getTime H (nr_submittedAt b)) (getTime H (nr_submittedAt a)))
                listingReviews
        in \<lparr> ls_listingId = nr_listingId info,
             ls_listingName = nr_listingName info,
             ls_listingSlug = nr_listingSlug info,
             ls_totalReviews = length listingReviews,
             ls_approvedReviews = length (filter nr_isApproved listingReviews),
             ls_lastReviewDate =
               (case sortedByDate of [] \<Rightarrow> None | r # _ \<Rightarrow> Some (nr_submittedAt r)),
             ls_averageRating = normalizedAverage,
             ls_ratingScale = NORMALIZED_TARGET_SCALE,
             ls_normalizedAverageRating = normalizedAverage,
             ls_channels = buildChannelBreakdown listingReviews,
             ls_categoryAverages = buildCategoryAverages listingReviews,
             ls_ratingTrend = buildTrend H listingReviews \<rparr>)"

text \<open>The comparator that orders the listing summaries.\<close>

definition summaryCompare ::
  "host \<Rightarrow> ListingReviewSummary \<Rightarrow> ListingReviewSummary \<Rightarrow> JsNumber" where
  "summaryCompare H a b =
     (case (ls_averageRating a, ls_averageRating b) of
        (None, None) \<Rightarrow> Finite (of_int (localeCompare H (ls_listingName a) (ls_listingName b)))
      | (None, Some y) \<Rightarrow> Finite 1
      | (Some x, None) \<Rightarrow> Finite (- 1)
      | (Some x, Some y) \<Rightarrow> Finite (y - x))"

definition buildListingSummaries :: "host \<Rightarrow> NormalizedReview list \<Rightarrow> ListingReviewSummary list" where
  "buildListingSummaries H reviews =
     arraySort (summaryCompare H) (map (summarize H) (map snd (groupByListing reviews)))"

definition computeMetrics :: "host \<Rightarrow> NormalizedReview list \<Rightarrow> CollectionMetrics" where
  "computeMetrics H reviews =
     (let normalizedAverage = average (map nr_normalizedRating reviews);
          approved = filter nr_isApproved reviews;
          dates = List.map_filter (\<lambda>review. dateParse H (nr_submittedAt review)) reviews;
          from = (case dates of [] \<Rightarrow> None | d # ds \<Rightarrow> Some (foldl min d ds));
          to = (case dates of [] \<Rightarrow> None | d # ds \<Rightarrow> Some (foldl max d ds))
      in \<lparr> cm_totalReviews = length reviews,
           cm_approvedReviews = length approved,
           cm_averageRating = normalizedAverage,
           cm_ratingScale = NORMALIZED_TARGET_SCALE,
           cm_normalizedAverageRating = normalizedAverage,
           cm_dateRange = \<lparr> dr_from = toIsoString H from, dr_to = toIsoString H to \<rparr> \<rparr>)"

section \<open>Filter evaluator\<close>

text \<open>
  An absent \<open>listingId\<close> is \<^term>\<open>None\<close>; one that \<^verbatim>\<open>parseInt\<close> could not read (NaN) is
  \<^term>\<open>Some None\<close>, which no listing id equals.
\<close>

record ReviewFilters =
  rf_listingId :: "int option option"
  rf_listingSlug :: "string option"
  rf_channels :: "ReviewChannel list option"
  rf_types :: "ReviewType list option"
  rf_statuses :: "ReviewStatus list option"
  rf_approved :: "bool option"
  rf_minRating :: "real option"
  rf_maxRating :: "real option"
  rf_category :: "string option"
  rf_minCategoryRating :: "real option"
  rf_startDate :: "string option"
  rf_endDate :: "string option"
  rf_search :: "string option"
  rf_sort :: "string option"

definition toBoolean :: "string option \<Rightarrow> bool option" where
  "toBoolean v =
     (case v of
        None \<Rightarrow> None
      | Some s \<Rightarrow> if s = ''true'' then Some True else if s = ''false'' then Some False else None)"

definition parseFloatOrNull :: "host \<Rightarrow> string option \<Rightarrow> real option" where
  "parseFloatOrNull H v = (case v of None \<Rightarrow> None | Some s \<Rightarrow> parseFloat H s)"

text \<open>\<^verbatim>\<open>params.get(k)?.split(",").filter(Boolean)\<close>.\<close>

definition commaList :: "string option \<Rightarrow> string list option" where
  "commaList v =
     (case v of None \<Rightarrow> None | Some s \<Rightarrow> Some (filter (\<lambda>w. w \<noteq> []) (splitOn CHR '','' s)))"

definition gatherFiltersFromSearchParams :: "host \<Rightarrow> (string \<times> string) list \<Rightarrow> ReviewFilters" where
  "gatherFiltersFromSearchParams H params =
     (let listingId = map_of params ''listingId'';
          listingSlug = map_of params ''listingSlug'';
          channels = commaList (map_of params ''channel'');
          types = commaList (map_of params ''type'');
          statuses = commaList (map_of params ''status'');
          approved = toBoolean (map_of params ''approved'');
          minRating = parseFloatOrNull H (map_of params ''minRating'');
          maxRating = parseFloatOrNull H (map_of params ''maxRating'');
          category = map_of params ''category'';
          minCategoryRating = parseFloatOrNull H (map_of params ''minCategoryRating'');
          startDate = map_of params ''startDate'';
          endDate = map_of params ''endDate'';
          search = map_of params ''search'';
          sort = map_of params ''sort''
      in \<lparr> rf_listingId =
             (case listingId of
                None \<Rightarrow> None
              | Some s \<Rightarrow> if s = [] then None else Some (parseInt10 H s)),
           rf_listingSlug = listingSlug,
           rf_channels = map_option (map (\<lambda>v. coerceChannel (Some v))) channels,
           rf_types = map_option (map (\<lambda>v. coerceType (Some v))) types,
           rf_statuses = map_option (map (\<lambda>v. coerceStatus (Some v))) statuses,
           rf_approved = approved,
           rf_minRating = minRating,
           rf_maxRating = maxRating,
           rf_category = map_option toLowerCase category,
           rf_minCategoryRating = minCategoryRating,
           rf_startDate = startDate,
           rf_endDate = endDate,
           rf_search = search,
           rf_sort = sort \<rparr>)"

text \<open>A string option that is a non-empty string, as \<^verbatim>\<open>if (value)\<close> tests it.\<close>

definition truthy :: "string option \<Rightarrow> bool" where
  "truthy v = (case v of None \<Rightarrow> False | Some s \<Rightarrow> s \<noteq> [])"

text \<open>The text that the search filter looks into.\<close>

definition haystack :: "NormalizedReview \<Rightarrow> string" where
  "haystack review =
     toLowerCase
       (joinSpace
          ([nr_listingName review,
            (case nr_guestName review of None \<Rightarrow> [] | Some s \<Rightarrow> s),
            (case nr_publicReview review of None \<Rightarrow> [] | Some s \<Rightarrow> s),
            (case nr_privateReview review of None \<Rightarrow> [] | Some s \<Rightarrow> s),
            (case nr_managerResponse review of None \<Rightarrow> [] | Some s \<Rightarrow> s)]
           @ nr_tags review))"

definition matchesFilters :: "host \<Rightarrow> NormalizedReview \<Rightarrow> ReviewFilters \<Rightarrow> bool" where
  "matchesFilters H review filters =
     (if (case rf_listingId filters of
            None \<Rightarrow> False
          | Some n \<Rightarrow> Some (nr_listingId review) \<noteq> n) then False
      else if truthy (rf_listingSlug filters)
              \<and> Some (nr_listingSlug review) \<noteq> rf_listingSlug filters then False
      else if (case rf_channels filters of
                 None \<Rightarrow> False
               | Some cs \<Rightarrow> cs \<noteq> [] \<and> nr_channel review \<notin> set cs) then False
      else if (case rf_types filters of
                 None \<Rightarrow> False
               | Some ts \<Rightarrow> ts \<noteq> [] \<and> nr_type review \<notin> set ts) then False
      else if (case rf_statuses filters of
                 None \<Rightarrow> False
               | Some ss \<Rightarrow> ss \<noteq> [] \<and> nr_status review \<notin> set ss) then False
      else if (case rf_approved filters of
                 None \<Rightarrow> False
               | Some a \<Rightarrow> nr_isApproved review \<noteq> a) then False
      else if (case rf_minRating filters of
                 None \<Rightarrow> False
               | Some lo \<Rightarrow>
                   (case nr_normalizedRating review of None \<Rightarrow> True | Some n \<Rightarrow> n < lo)) then False
      else if (case rf_maxRating filters of
                 None \<Rightarrow> False
               | Some hi \<Rightarrow>
                   (case nr_normalizedRating review of None \<Rightarrow> True | Some n \<Rightarrow> n > hi)) then False
      else if truthy (rf_category filters)
              \<and> (case find (\<lambda>category. Some (toLowerCase (nc_key category)) = rf_category filters)
                           (nr_categoryRatings review) of
                    None \<Rightarrow> True
                  | Some categoryMatch \<Rightarrow>
                      (case rf_minCategoryRating filters of
                         None \<Rightarrow> False
                       | Some lo \<Rightarrow>
                           (case nc_normalizedRating categoryMatch of
                              None \<Rightarrow> True
                            | Some n \<Rightarrow> n < lo))) then False
      else
        let startDate = (if truthy (rf_startDate filters) then parseDate H (rf_startDate filters)
                         else None);
            endDate = (if truthy (rf_endDate filters) then parseDate H (rf_endDate filters)
                       else None)
        in if (startDate \<noteq> None \<or> endDate \<noteq> None)
              \<and> (case parseDate H (Some (nr_submittedAt review)) of
                    None \<Rightarrow> True
                  | Some submitted \<Rightarrow>
                      (case startDate of None \<Rightarrow> False | Some sd \<Rightarrow> submitted < sd)
                      \<or> (case endDate of None \<Rightarrow> False | Some ed \<Rightarrow> submitted > ed)) then False
           else if (case rf_search filters of
                      None \<Rightarrow> False
                    | Some q \<Rightarrow> q \<noteq> [] \<and> \<not> includesStr (haystack review) (toLowerCase q))
           then False
           else True)"

section \<open>Sort comparator\<close>

text \<open>\<^verbatim>\<open>a.normalizedRating ?? -Infinity\<close>.\<close>

definition ratingValue :: "NormalizedReview \<Rightarrow> JsNumber" where
  "ratingValue a = (case nr_normalizedRating a of None \<Rightarrow> NegInfinity | Some x \<Rightarrow> Finite x)"

definition applySorting :: "host \<Rightarrow> NormalizedReview list \<Rightarrow> string option \<Rightarrow> NormalizedReview list" where
  "applySorting H reviews sortSpec =
     (if \<not> truthy sortSpec
      then arraySort
             (\<lambda>a b. jsSub (getTime H (nr_submittedAt b)) (getTime H (nr_submittedAt a)))
             reviews
      else
        let parts = splitOn CHR '':'' (case sortSpec of None \<Rightarrow> [] | Some s \<Rightarrow> s);
            field = (case parts of [] \<Rightarrow> None | f # _ \<Rightarrow> Some f);
            direction = (case parts of _ # d # _ \<Rightarrow> Some d | _ \<Rightarrow> None);
            multiplier = (if direction = Some ''asc'' then Finite 1 else Finite (- 1))
        in if field = Some ''rating''
           then arraySort
                  (\<lambda>a b. jsMul (jsMul (jsSub (ratingValue a) (ratingValue b)) multiplier)
                                (Finite (- 1)))
                  reviews
           else if field = Some ''listing''
           then arraySort
                  (\<lambda>a b. jsMul
                            (Finite (of_int (localeCompare H (nr_listingName a) (nr_listingName b))))
                            multiplier)
                  reviews
           else if field = Some ''channel''
           then arraySort
                  (\<lambda>a b. jsMul
                            (Finite (of_int (localeCompare H (channelCode (nr_channel a))
                                                           (channelCode (nr_channel b)))))
                            multiplier)
                  reviews
           else arraySort
                  (\<lambda>a b. jsMul
                            (jsSub (getTime H (nr_submittedAt a)) (getTime H (nr_submittedAt b)))
                            multiplier)
                  reviews)"

section \<open>Response assembler\<close>

definition collectMetaFilters :: "host \<Rightarrow> NormalizedReview list \<Rightarrow> MetaFilters" where
  "collectMetaFilters H reviews =
     (let dates = List.map_filter (\<lambda>review. parseDate H (Some (nr_submittedAt review))) reviews;
          channels = foldl (\<lambda>s review. setAdd s (nr_channel review)) [] reviews;
          types = foldl (\<lambda>s review. setAdd s (nr_type review)) [] reviews;
          statuses = foldl (\<lambda>s review. setAdd s (nr_status review)) [] reviews;
          categories =
            foldl (\<lambda>s review. foldl (\<lambda>s' category. setAdd s' (nc_key category)) s
                                     (nr_categoryRatings review))
                  [] reviews;
          minDate = (case dates of [] \<Rightarrow> None | d # ds \<Rightarrow> Some (foldl min d ds));
          maxDate = (case dates of [] \<Rightarrow> None | d # ds \<Rightarrow> Some (foldl max d ds))
      in \<lparr> mf_channels = sort_key channelCode channels,
           mf_reviewTypes = sort_key typeCode types,
           mf_categories = sort_key (\<lambda>k. k) categories,
           mf_statuses = sort_key statusCode statuses,
           mf_dateRange = \<lparr> mdr_min = toIsoString H minDate, mdr_max = toIsoString H maxDate \<rparr> \<rparr>)"

record HostawayReviewEnvelope =
  env_status :: string
  env_result :: "HostawayReview list option"

definition getHostawayReviews :: "HostawayReviewEnvelope \<Rightarrow> HostawayReview list" where
  "getHostawayReviews hostawayMockData =
     (case env_result hostawayMockData of None \<Rightarrow> [] | Some rs \<Rightarrow> rs)"

text \<open>
  The corpus \<open>hostawayMockData\<close> and the store are module-level values in the source and
  arguments here; \<open>now\<close> is the clock reading \<^verbatim>\<open>new Date().toISOString()\<close>. The
  filtered list is a fresh array, so sorting it in place leaves \<open>allNormalized\<close> as it
  was.
\<close>

definition buildHostawayResponse ::
  "host \<Rightarrow> string \<Rightarrow> HostawayReviewEnvelope \<Rightarrow> ApprovalsStore \<Rightarrow> string \<Rightarrow> ReviewsResponse" where
  "buildHostawayResponse H now hostawayMockData store requestUrl =
     (let allNormalized = map (normalizeReview H store) (getHostawayReviews hostawayMockData);
          filters = gatherFiltersFromSearchParams H (urlSearchParams H requestUrl);
          filteredReviews = filter (\<lambda>review. matchesFilters H review filters) allNormalized;
          sortedReviews = applySorting H filteredReviews (rf_sort filters)
      in \<lparr> resp_meta =
             \<lparr> meta_generatedAt = now,
               meta_filters = collectMetaFilters H allNormalized \<rparr>,
           resp_metrics =
             \<lparr> metrics_overall = computeMetrics H allNormalized,
               metrics_filtered = computeMetrics H sortedReviews \<rparr>,
           resp_listings = buildListingSummaries H sortedReviews,
           resp_reviews = sortedReviews \<rparr>)"

definition refreshApprovals ::
  "string \<Rightarrow> HostawayReviewEnvelope \<Rightarrow> ApprovalsStore \<Rightarrow> ApprovalsStore" where
  "refreshApprovals now hostawayMockData store =
     foldl (\<lambda>st review. ensureInitialValue now st (showInt (hr_id review)) (hr_publishOnFlex review))
           store (getHostawayReviews hostawayMockData)"

section \<open>Approval mutation endpoint (approve/route.ts)\<close>

datatype ApproveError = InvalidReviewId | InvalidApprovedFlag

text \<open>
  The \<^verbatim>\<open>POST\<close> handler on a parsed body: \<open>reviewId\<close> is \<^term>\<open>None\<close> when the field is
  missing or not a string, \<open>approved\<close> when it is not a boolean. Both errors are answered
  with status 400 and leave the store as it was.
\<close>

definition approvePOST ::
  "string \<Rightarrow> ApprovalsStore \<Rightarrow> string option \<Rightarrow> bool option \<Rightarrow> ApproveError + ApprovalsStore" where
  "approvePOST now store reviewId approved =
     (if \<not> truthy reviewId then Inl InvalidReviewId
      else case approved of
             None \<Rightarrow> Inl InvalidApprovedFlag
           | Some a \<Rightarrow>
               Inr (setApproval now store (case reviewId of None \<Rightarrow> [] | Some i \<Rightarrow> i) a))"

section \<open>Properties used in the statements\<close>

text \<open>A normalized rating that is null or lies in the interval from 0 to 5.\<close>

definition ratingInRange :: "real option \<Rightarrow> bool" where
  "ratingInRange v = (case v of None \<Rightarrow> True | Some n \<Rightarrow> 0 \<le> n \<and> n \<le> 5)"


text \<open>
  A slug of lower-case alphanumeric characters and hyphens, no two hyphens adjacent and
  none at either end.
\<close>

definition slugShape :: "string \<Rightarrow> bool" where
  "slugShape s \<longleftrightarrow>
     (\<forall>c \<in> set s. isLowerAlnum c \<or> c = CHR ''-'') \<and>
     successively (\<lambda>a b. \<not> (a = CHR ''-'' \<and> b = CHR ''-'')) s \<and>
     (s \<noteq> [] \<longrightarrow> hd s \<noteq> CHR ''-'' \<and> last s \<noteq> CHR ''-'')"






text \<open>
  Averages in descending order with null last: \<open>a\<close> may stand before \<open>b\<close>.
\<close>

fun averageGe :: "real option \<Rightarrow> real option \<Rightarrow> bool" where
  "averageGe _ None = True"
| "averageGe None (Some y) = False"
| "averageGe (Some x) (Some y) = (x \<ge> y)"

text \<open>
  The order of listing summaries in the specification's words: by average descending,
  null last, and summaries with equal averages by listing name ascending.
\<close>

definition specSummaryOrder :: "host \<Rightarrow> ListingReviewSummary list \<Rightarrow> bool" where
  "specSummaryOrder H out =
     sorted_wrt
       (\<lambda>a b. averageGe (ls_averageRating a) (ls_averageRating b)
              \<and> (ls_averageRating a = ls_averageRating b
                   \<longrightarrow> localeCompare H (ls_listingName a) (ls_listingName b) \<le> 0))
       out"

text \<open>
  The order the source gives them: by average descending, null last, and summaries whose
  averages are both null by listing name ascending.
\<close>

definition summaryOrder :: "host \<Rightarrow> ListingReviewSummary list \<Rightarrow> bool" where
  "summaryOrder H out =
     sorted_wrt
       (\<lambda>a b. averageGe (ls_averageRating a) (ls_averageRating b)
              \<and> (ls_averageRating a = None \<and> ls_averageRating b = None
                   \<longrightarrow> localeCompare H (ls_listingName a) (ls_listingName b) \<le> 0))
       out"

text \<open>A collation is a total preorder on strings.\<close>

definition collationOrder :: "host \<Rightarrow> bool" where
  "collationOrder H \<longleftrightarrow>
     (\<forall>a b c. localeCompare H a b \<le> 0 \<and> localeCompare H b c \<le> 0 \<longrightarrow> localeCompare H a c \<le> 0)
     \<and> (\<forall>a b. localeCompare H a b > 0 \<longrightarrow> localeCompare H b a \<le> 0)"

section \<open>Example data\<close>

text \<open>
  A host fragment for the examples: the values of the built-ins at the arguments that
  the examples reach (for instance \<^verbatim>\<open>new Date("1960-01-01").getTime()\<close> is
  \<open>-315619200000\<close>), and code-unit order for the collation, with which the default
  collation agrees on the names used below.
\<close>

definition exampleHost :: host where
  "exampleHost =
     \<lparr> dateParse =
         map_of [(''1970-01-01T00:00:00.000Z'', 0),
                 (''2024-03-01T10:00:00.000Z'', 1709287200000),
                 (''1960-01-01'', - 315619200000)],
       dateToISOString =
         (\<lambda>t. if t = 1709287200000 then ''2024-03-01T10:00:00.000Z''
               else ''1970-01-01T00:00:00.000Z''),
       getUTCFullYear = (\<lambda>t. if t = 1709287200000 then 2024 else 1970),
       getUTCMonth = (\<lambda>t. if t = 1709287200000 then 2 else 0),
       localeCompare = (\<lambda>a b. if a < b then - 1 else if b < a then 1 else 0),
       parseFloat = map_of [(''4.4'', 44 / 10)],
       parseInt10 = map_of [(''201'', 201)],
       urlSearchParams =
         (\<lambda>u. if u = ''http://localhost/api/reviews/hostaway?sort=rating:desc&minRating=4.4''
               then [(''sort'', ''rating:desc''), (''minRating'', ''4.4'')]
               else if u = ''http://localhost/api/reviews/hostaway?search=flat''
               then [(''search'', ''flat'')]
               else []) \<rparr>"

definition exampleReview :: HostawayReview where
  "exampleReview =
     \<lparr> hr_id = 7453,
       hr_listingId = 201,
       hr_listingName = ''Shoreditch Heights A'',
       hr_type = Some ''guest-to-host'',
       hr_channel = Some ''airbnb'',
       hr_status = Some ''published'',
       hr_rating = Some 9,
       hr_ratingScale = None,
       hr_publicReview = Some ''Great stay'',
       hr_privateReview = None,
       hr_reviewCategory = Some [\<lparr> hc_category = ''cleanliness'', hc_rating = Some 9 \<rparr>],
       hr_submittedAt = Some ''2024-03-01T10:00:00.000Z'',
       hr_guestName = Some ''Ada'',
       hr_managerResponse = None,
       hr_tags = None,
       hr_publishOnFlex = None \<rparr>"

definition noFilters :: ReviewFilters where
  "noFilters =
     \<lparr> rf_listingId = None, rf_listingSlug = None, rf_channels = None, rf_types = None,
       rf_statuses = None, rf_approved = None, rf_minRating = None, rf_maxRating = None,
       rf_category = None, rf_minCategoryRating = None, rf_startDate = None,
       rf_endDate = None, rf_search = None, rf_sort = None \<rparr>"

text \<open>
  A corpus of one review that the source publishes (\<^verbatim>\<open>publishOnFlex: true\<close>), and the
  approval store after the start-up seeding followed by the manager's request
  \<^verbatim>\<open>{ "reviewId": "hostaway-7453", "approved": false }\<close>.
\<close>

definition publishedReview :: HostawayReview where
  "publishedReview = exampleReview\<lparr>hr_publishOnFlex := Some True\<rparr>"

definition exampleCorpus :: HostawayReviewEnvelope where
  "exampleCorpus = \<lparr> env_status = ''success'', env_result = Some [publishedReview] \<rparr>"

definition overriddenStore :: ApprovalsStore where
  "overriddenStore =
     [(''7453'',
       \<lparr> ar_value = True, ar_updatedAt = ''2024-03-01T10:00:00.000Z'', ar_source = Initial \<rparr>),
      (''hostaway-7453'',
       \<lparr> ar_value = False, ar_updatedAt = ''2024-03-02T09:00:00.000Z'', ar_source = Manager \<rparr>)]"


definition undatedReview :: HostawayReview where
  "undatedReview = exampleReview\<lparr>hr_submittedAt := None\<rparr>"

text \<open>Reviews rated 5 and 3 on the five-point scale, and a review without a rating.\<close>

definition fiveStarReview :: HostawayReview where
  "fiveStarReview = exampleReview\<lparr>hr_id := 1, hr_rating := Some 5\<rparr>"

definition threeStarReview :: HostawayReview where
  "threeStarReview = exampleReview\<lparr>hr_id := 2, hr_rating := Some 3\<rparr>"

definition unratedReview :: HostawayReview where
  "unratedReview = exampleReview\<lparr>hr_id := 3, hr_rating := None\<rparr>"

text \<open>
  Two listings, Zeta House seen first and Alpha House second, each with one review:
  once both rated 9 of 10, once both without a rating.
\<close>

definition zetaReview :: HostawayReview where
  "zetaReview = exampleReview\<lparr>hr_id := 11, hr_listingId := 301, hr_listingName := ''Zeta House''\<rparr>"

definition alphaReview :: HostawayReview where
  "alphaReview = exampleReview\<lparr>hr_id := 12, hr_listingId := 302, hr_listingName := ''Alpha House''\<rparr>"

definition zetaAlphaRated :: "NormalizedReview list" where
  "zetaAlphaRated = map (normalizeReview exampleHost []) [zetaReview, alphaReview]"

definition zetaAlphaUnrated :: "NormalizedReview list" where
  "zetaAlphaUnrated =
     map (normalizeReview exampleHost [])
       [zetaReview\<lparr>hr_rating := None\<rparr>, alphaReview\<lparr>hr_rating := None\<rparr>]"



section \<open>Facts about the normalizer\<close>

lemma normalize_id: "nr_id (normalizeReview H store r) = ''hostaway-'' @ showInt (hr_id r)"
  by (simp add: normalizeReview_def Let_def)

lemma normalize_listingName:
  "nr_listingName (normalizeReview H store r) =
     sanitizeAndFallback (Some (hr_listingName r)) ''Flex Living Listing''"
  by (simp add: normalizeReview_def Let_def)

lemma normalize_listingSlug:
  "nr_listingSlug (normalizeReview H store r) =
     toSlug (sanitizeAndFallback (Some (hr_listingName r)) ''Flex Living Listing'')"
  by (simp add: normalizeReview_def Let_def)

lemma normalize_submittedAt:
  "nr_submittedAt (normalizeReview H store r) =
     dateToISOString H (case parseDate H (hr_submittedAt r) of None \<Rightarrow> 0 | Some t \<Rightarrow> t)"
  by (simp add: normalizeReview_def Let_def)


lemma normalize_normalizedRating:
  "nr_normalizedRating (normalizeReview H store r) =
     normalizeValueToTarget (hr_rating r) (detectScale (hr_rating r) (hr_ratingScale r))
       NORMALIZED_TARGET_SCALE"
  by (simp add: normalizeReview_def Let_def)

lemma normalize_categoryRatings:
  "nr_categoryRatings (normalizeReview H store r) = normalizeCategories (hr_reviewCategory r)"
  by (simp add: normalizeReview_def Let_def)

lemma normalize_isApproved:
  "nr_isApproved (normalizeReview H store r) =
     (case getApproval store (showInt (hr_id r)) of
        Some b \<Rightarrow> b
      | None \<Rightarrow>
          (case hr_publishOnFlex r of
             Some p \<Rightarrow> p
           | None \<Rightarrow>
               (case normalizeValueToTarget (hr_rating r)
                       (detectScale (hr_rating r) (hr_ratingScale r)) NORMALIZED_TARGET_SCALE of
                  None \<Rightarrow> False
                | Some n \<Rightarrow> n \<ge> 44 / 10)))"
  by (simp add: normalizeReview_def Let_def)

lemma normalize_listingId: "nr_listingId (normalizeReview H store r) = hr_listingId r"
  by (simp add: normalizeReview_def Let_def)

lemma showInt_7453: "showInt 7453 = ''7453''"
  by (simp add: showInt_def showNat.simps)

section \<open>Rounding\<close>

lemma toFixed2_unit: "0 \<le> x \<Longrightarrow> x \<le> 5 \<Longrightarrow> 0 \<le> toFixed2 x \<and> toFixed2 x \<le> 5"
  unfolding toFixed2_def by auto





section \<open>Scale detection without a hint\<close>




section \<open>Range of the normalized rating\<close>

lemma normalizeValueToTarget_in_range:
  assumes "0 \<le> v" "v \<le> s"
  shows "ratingInRange (normalizeValueToTarget (Some v) s NORMALIZED_TARGET_SCALE)"
proof (cases "s \<le> 0")
  case True
  then show ?thesis by (simp add: normalizeValueToTarget_def ratingInRange_def)
next
  case False
  then have s: "0 < s" by simp
  have "0 \<le> v / s * 5" using assms s by simp
  moreover have "v / s * 5 \<le> 5" using assms s by (simp add: field_simps)
  ultimately show ?thesis
    using s toFixed2_unit [of "v / s * 5"]
    by (simp add: normalizeValueToTarget_def ratingInRange_def NORMALIZED_TARGET_SCALE_def)
qed

lemma detectScale_covers: "0 \<le> v \<Longrightarrow> v \<le> 100 \<Longrightarrow> v \<le> detectScale (Some v) None"
  by (simp add: detectScale_def DEFAULT_RATING_SCALE_def)

lemma normalizeCategory_in_range:
  assumes "case nc_rating (normalizeCategory c) of None \<Rightarrow> True | Some v \<Rightarrow> 0 \<le> v \<and> v \<le> 100"
  shows "ratingInRange (nc_normalizedRating (normalizeCategory c))"
proof (cases "hc_rating c")
  case None
  then show ?thesis
    by (simp add: normalizeCategory_def Let_def normalizeValueToTarget_def ratingInRange_def)
next
  case (Some v)
  then have "0 \<le> v" "v \<le> 100" using assms by (simp_all add: normalizeCategory_def Let_def)
  then show ?thesis
    using Some normalizeValueToTarget_in_range [of v "detectScale (Some v) None"] detectScale_covers [of v]
    by (simp add: normalizeCategory_def Let_def)
qed

text \<open>
  Claim C2 as stated fails: a rating of 9 with the positive scale hint 5 is normalized
  to 9, which lies outside the interval from 0 to 5.
\<close>

theorem C2_counterexample:
  "\<not> ratingInRange
       (nr_normalizedRating
          (normalizeReview exampleHost [] (exampleReview\<lparr>hr_rating := Some 9, hr_ratingScale := Some 5\<rparr>)))"
  by (simp add: normalize_normalizedRating detectScale_def normalizeValueToTarget_def
      NORMALIZED_TARGET_SCALE_def toFixed2_def ratingInRange_def)

text \<open>
  Claim C2, amended. The normalized rating is null or lies within 0 and 5 whenever the
  raw rating is absent or lies between 0 and the scale in use (the positive hint, or
  else the scale detected from the rating's magnitude); every normalized category
  sub-rating is null or lies within 0 and 5 whenever its raw sub-rating is absent or
  lies between 0 and 100.
\<close>

theorem C2_rating_in_range_within_scale:
  "((case hr_rating r of
       None \<Rightarrow> True
     | Some v \<Rightarrow> 0 \<le> v \<and> v \<le> detectScale (hr_rating r) (hr_ratingScale r))
    \<longrightarrow> ratingInRange (nr_normalizedRating (normalizeReview H store r)))
   \<and> (\<forall>c \<in> set (nr_categoryRatings (normalizeReview H store r)).
         (case nc_rating c of None \<Rightarrow> True | Some v \<Rightarrow> 0 \<le> v \<and> v \<le> 100)
         \<longrightarrow> ratingInRange (nc_normalizedRating c))"
proof (intro conjI impI ballI)
  assume a: "case hr_rating r of
       None \<Rightarrow> True
     | Some v \<Rightarrow> 0 \<le> v \<and> v \<le> detectScale (hr_rating r) (hr_ratingScale r)"
  show "ratingInRange (nr_normalizedRating (normalizeReview H store r))"
  proof (cases "hr_rating r")
    case None
    then show ?thesis
      by (simp add: normalize_normalizedRating normalizeValueToTarget_def ratingInRange_def)
  next
    case (Some v)
    then show ?thesis
      using a normalizeValueToTarget_in_range [of v "detectScale (Some v) (hr_ratingScale r)"]
      by (simp add: normalize_normalizedRating)
  qed
next
  fix c
  assume c: "c \<in> set (nr_categoryRatings (normalizeReview H store r))"
    and b: "case nc_rating c of None \<Rightarrow> True | Some v \<Rightarrow> 0 \<le> v \<and> v \<le> 100"
  from c obtain raw where "c = normalizeCategory raw"
    by (auto simp: normalize_categoryRatings normalizeCategories_def split: option.splits if_splits)
  then show "ratingInRange (nc_normalizedRating c)"
    using b normalizeCategory_in_range by simp
qed

text \<open>The amended C2 at the example review, whose rating 9 is within its scale 10.\<close>

theorem C2_rating_in_range_within_scale_witness:
  "(case hr_rating exampleReview of
      None \<Rightarrow> True
    | Some v \<Rightarrow> 0 \<le> v \<and> v \<le> detectScale (hr_rating exampleReview) (hr_ratingScale exampleReview))
   \<and> ratingInRange (nr_normalizedRating (normalizeReview exampleHost [] exampleReview))
   \<and> nr_categoryRatings (normalizeReview exampleHost [] exampleReview) \<noteq> []
   \<and> list_all (\<lambda>c. case nc_rating c of None \<Rightarrow> True | Some v \<Rightarrow> 0 \<le> v \<and> v \<le> 100)
        (nr_categoryRatings (normalizeReview exampleHost [] exampleReview))
   \<and> list_all (\<lambda>c. ratingInRange (nc_normalizedRating c))
        (nr_categoryRatings (normalizeReview exampleHost [] exampleReview))"
proof -
  have h: "case hr_rating exampleReview of
      None \<Rightarrow> True
    | Some v \<Rightarrow> 0 \<le> v \<and> v \<le> detectScale (hr_rating exampleReview) (hr_ratingScale exampleReview)"
    by (simp add: exampleReview_def detectScale_def DEFAULT_RATING_SCALE_def)
  have cs: "nr_categoryRatings (normalizeReview exampleHost [] exampleReview)
              = [normalizeCategory \<lparr>hc_category = ''cleanliness'', hc_rating = Some 9\<rparr>]"
    by (simp add: normalize_categoryRatings normalizeCategories_def exampleReview_def)
  have k: "list_all (\<lambda>c. case nc_rating c of None \<Rightarrow> True | Some v \<Rightarrow> 0 \<le> v \<and> v \<le> 100)
        (nr_categoryRatings (normalizeReview exampleHost [] exampleReview))"
    by (simp add: cs normalizeCategory_def Let_def)
  show ?thesis
    using h k cs C2_rating_in_range_within_scale [of exampleReview exampleHost "[]"]
    by (simp add: list_all_iff)
qed

section \<open>Shape of the listing slug\<close>

lemma hyphenate_chars: "c \<in> set (hyphenate b s) \<Longrightarrow> isLowerAlnum c \<or> c = CHR ''-''"
  by (induction b s rule: hyphenate.induct) (auto split: if_splits)

lemma hyphenate_hd: "hyphenate True s \<noteq> [] \<Longrightarrow> hd (hyphenate True s) \<noteq> CHR ''-''"
  by (induction s) (auto simp: isLowerAlnum_def split: if_splits)

lemma hyphenate_successively:
  "successively (\<lambda>a b. \<not> (a = CHR ''-'' \<and> b = CHR ''-'')) (hyphenate b s)"
  by (induction b s rule: hyphenate.induct)
     (auto simp: successively_Cons hyphenate_hd isLowerAlnum_def split: if_splits)

lemma stripEdgeHyphens_shape:
  assumes ch: "\<forall>c \<in> set s. isLowerAlnum c \<or> c = CHR ''-''"
    and su: "successively (\<lambda>a b. \<not> (a = CHR ''-'' \<and> b = CHR ''-'')) s"
  shows "slugShape (stripEdgeHyphens s)"
proof -
  define s1 where "s1 = (case s of [] \<Rightarrow> [] | c # cs \<Rightarrow> if c = CHR ''-'' then cs else c # cs)"
  have s1_set: "set s1 \<subseteq> set s" by (auto simp: s1_def split: list.splits)
  have s1_su: "successively (\<lambda>a b. \<not> (a = CHR ''-'' \<and> b = CHR ''-'')) s1"
    using su by (auto simp: s1_def successively_Cons split: list.splits)
  have s1_hd: "s1 \<noteq> [] \<Longrightarrow> hd s1 \<noteq> CHR ''-''"
    using su by (auto simp: s1_def successively_Cons split: list.splits if_splits)
  have eq: "stripEdgeHyphens s = (if s1 \<noteq> [] \<and> last s1 = CHR ''-'' then butlast s1 else s1)"
    by (simp add: stripEdgeHyphens_def s1_def Let_def)
  show ?thesis
  proof (cases "s1 \<noteq> [] \<and> last s1 = CHR ''-''")
    case False
    then show ?thesis using eq s1_set s1_su s1_hd ch by (auto simp: slugShape_def)
  next
    case True
    then obtain ys where ys: "s1 = ys @ [CHR ''-'']"
      by (metis append_butlast_last_id)
    have r: "stripEdgeHyphens s = ys" using eq True ys by simp
    have "set ys \<subseteq> set s" using s1_set ys by auto
    moreover have "successively (\<lambda>a b. \<not> (a = CHR ''-'' \<and> b = CHR ''-'')) ys"
      using s1_su ys by (simp add: successively_append_iff)
    moreover have "ys \<noteq> [] \<Longrightarrow> last ys \<noteq> CHR ''-''"
      using s1_su ys by (simp add: successively_append_iff)
    moreover have "ys \<noteq> [] \<Longrightarrow> hd ys \<noteq> CHR ''-''"
      using s1_hd ys by (cases ys) auto
    ultimately show ?thesis using ch r by (auto simp: slugShape_def)
  qed
qed

lemma toSlug_shape: "slugShape (toSlug v)"
  unfolding toSlug_def using hyphenate_chars hyphenate_successively
  by (intro stripEdgeHyphens_shape) auto

lemma sanitize_bangs: "sanitizeAndFallback (Some ''!!!'') fb = ''!!!''"
  by (simp add: sanitizeAndFallback_def sanitizeText_def trim_def isWhiteSpace_def isControl_def
      isHtmlDangerous_def Let_def)

lemma toSlug_bangs: "toSlug ''!!!'' = []"
  by (simp add: toSlug_def sanitize_bangs toLowerCase_def lowerChar_def isLowerAlnum_def
      stripEdgeHyphens_def Let_def)

text \<open>
  Claim C10. The listing slug of every normalized review consists of lower-case
  alphanumeric characters and single interior hyphens, with no hyphen at the start or
  at the end; and for the listing name \<^verbatim>\<open>!!!\<close>, which survives sanitizing unchanged,
  the slug is the empty string.
\<close>

theorem C10_slug_shape:
  "slugShape (nr_listingSlug (normalizeReview H store r))
   \<and> nr_listingName (normalizeReview H store (r\<lparr>hr_listingName := ''!!!''\<rparr>)) = ''!!!''
   \<and> nr_listingSlug (normalizeReview H store (r\<lparr>hr_listingName := ''!!!''\<rparr>)) = []"
  by (simp add: normalize_listingSlug normalize_listingName toSlug_shape sanitize_bangs toSlug_bangs)

lemma exampleSlug:
  "toSlug (sanitizeAndFallback (Some ''Shoreditch Heights A'') ''Flex Living Listing'')
     = ''shoreditch-heights-a''"
  by (simp add: toSlug_def sanitizeAndFallback_def sanitizeText_def trim_def isWhiteSpace_def
      isControl_def isHtmlDangerous_def toLowerCase_def lowerChar_def isLowerAlnum_def
      stripEdgeHyphens_def Let_def)

text \<open>C10 at the example review, whose slug is not empty.\<close>

theorem C10_slug_shape_witness:
  "nr_listingSlug (normalizeReview exampleHost [] exampleReview) = ''shoreditch-heights-a''
   \<and> slugShape ''shoreditch-heights-a''
   \<and> nr_listingName (normalizeReview exampleHost [] (exampleReview\<lparr>hr_listingName := ''!!!''\<rparr>)) = ''!!!''
   \<and> nr_listingSlug (normalizeReview exampleHost [] (exampleReview\<lparr>hr_listingName := ''!!!''\<rparr>)) = []"
proof -
  have s: "nr_listingSlug (normalizeReview exampleHost [] exampleReview) = ''shoreditch-heights-a''"
    by (simp add: normalize_listingSlug exampleReview_def exampleSlug)
  show ?thesis
    using s C10_slug_shape [of exampleHost "[]" exampleReview] by simp
qed

section \<open>Facts about maps\<close>

lemma map_of_mapSet: "map_of (mapSet k v m) = (map_of m)(k \<mapsto> v)"
  by (induction m) (auto simp: fun_eq_iff)

section \<open>Approval override\<close>

text \<open>
  Claim C1, evaluated where the code departs from it. The store is seeded at start-up
  under the key \<^verbatim>\<open>7453\<close>, the manager's request stores \<open>False\<close> under the public
  identifier \<^verbatim>\<open>hostaway-7453\<close>, which is the identifier of the normalized review; the
  normalizer reads the key \<^verbatim>\<open>7453\<close> and the review stays approved.
\<close>

theorem C1_override_under_public_id_ignored:
  "approvePOST ''2024-03-02T09:00:00.000Z''
      (refreshApprovals ''2024-03-01T10:00:00.000Z'' exampleCorpus [])
      (Some ''hostaway-7453'') (Some False) = Inr overriddenStore
   \<and> nr_id (normalizeReview exampleHost overriddenStore publishedReview) = ''hostaway-7453''
   \<and> getApproval overriddenStore ''hostaway-7453'' = Some False
   \<and> nr_isApproved (normalizeReview exampleHost overriddenStore publishedReview) = True"
proof -
  have i: "hr_id publishedReview = 7453" "hr_publishOnFlex publishedReview = Some True"
    by (simp_all add: publishedReview_def exampleReview_def)
  have 1: "approvePOST ''2024-03-02T09:00:00.000Z''
      (refreshApprovals ''2024-03-01T10:00:00.000Z'' exampleCorpus [])
      (Some ''hostaway-7453'') (Some False) = Inr overriddenStore"
    by (simp add: approvePOST_def refreshApprovals_def exampleCorpus_def getHostawayReviews_def
        ensureInitialValue_def setApproval_def mapHas_def truthy_def i showInt_7453
        overriddenStore_def)
  have 2: "nr_id (normalizeReview exampleHost overriddenStore publishedReview) = ''hostaway-7453''"
    by (simp add: normalize_id i showInt_7453)
  have 3: "getApproval overriddenStore ''hostaway-7453'' = Some False"
    by (simp add: getApproval_def overriddenStore_def)
  have 4: "nr_isApproved (normalizeReview exampleHost overriddenStore publishedReview) = True"
    by (simp add: normalize_isApproved i showInt_7453 getApproval_def overriddenStore_def)
  show ?thesis using 1 2 3 4 by blast
qed

text \<open>
  More generally, a value stored under a public identifier is read by no normalization
  at all: the keys that the normalizer looks up are decimal numerals.
\<close>

lemma showNat_digits: "showNat n \<noteq> [] \<and> hd (showNat n) \<in> set ''0123456789''"
proof (induction n rule: showNat.induct)
  case (1 n)
  show ?case
  proof (cases "n < 10")
    case True
    then have "''0123456789'' ! n \<in> set ''0123456789''"
      by (intro nth_mem) simp
    then show ?thesis using True by (subst (1 2) showNat.simps) simp
  next
    case False
    then show ?thesis using 1 by (subst (1 2) showNat.simps) simp
  qed
qed

lemma showInt_not_public: "showInt i \<noteq> ''hostaway-'' @ s"
proof
  assume e: "showInt i = ''hostaway-'' @ s"
  have "hd (showInt i) \<in> set ''-0123456789''"
    using showNat_digits [of "nat i"] showNat_digits [of "nat (- i)"]
    by (auto simp: showInt_def)
  then show False unfolding e by simp
qed

lemma getApproval_setApproval_other:
  "k \<noteq> k' \<Longrightarrow> getApproval (setApproval now store k v) k' = getApproval store k'"
  by (simp add: getApproval_def setApproval_def map_of_mapSet)

lemma public_id_override_never_read:
  "normalizeReview H (setApproval now store (''hostaway-'' @ showInt n) v) r
     = normalizeReview H store r"
proof -
  have "getApproval (setApproval now store (''hostaway-'' @ showInt n) v) (showInt (hr_id r))
          = getApproval store (showInt (hr_id r))"
    by (rule getApproval_setApproval_other) (use showInt_not_public [of "hr_id r" "showInt n"] in auto)
  then show ?thesis by (simp add: normalizeReview_def)
qed

section \<open>Metadata and overall metrics\<close>

text \<open>
  Claim C9. For a fixed corpus and a fixed approval store, the metadata filter
  vocabulary and the overall metrics of the response are the same for any two request
  URLs (and clock readings): each is computed from the full normalized corpus alone.
\<close>

theorem C9_meta_and_overall_ignore_query:
  "meta_filters (resp_meta (buildHostawayResponse H now1 corpus store url1))
     = collectMetaFilters H (map (normalizeReview H store) (getHostawayReviews corpus))
   \<and> metrics_overall (resp_metrics (buildHostawayResponse H now1 corpus store url1))
     = computeMetrics H (map (normalizeReview H store) (getHostawayReviews corpus))
   \<and> meta_filters (resp_meta (buildHostawayResponse H now1 corpus store url1))
     = meta_filters (resp_meta (buildHostawayResponse H now2 corpus store url2))
   \<and> metrics_overall (resp_metrics (buildHostawayResponse H now1 corpus store url1))
     = metrics_overall (resp_metrics (buildHostawayResponse H now2 corpus store url2))"
  by (simp add: buildHostawayResponse_def Let_def)

text \<open>C9 for two request URLs with different filter and sort parameters.\<close>

theorem C9_meta_and_overall_ignore_query_witness:
  "meta_filters (resp_meta (buildHostawayResponse exampleHost ''2024-03-02T09:00:00.000Z'' exampleCorpus []
       ''http://localhost/api/reviews/hostaway?sort=rating:desc&minRating=4.4''))
     = meta_filters (resp_meta (buildHostawayResponse exampleHost ''2024-03-02T09:00:05.000Z'' exampleCorpus []
       ''http://localhost/api/reviews/hostaway?search=flat''))
   \<and> metrics_overall (resp_metrics (buildHostawayResponse exampleHost ''2024-03-02T09:00:00.000Z'' exampleCorpus []
       ''http://localhost/api/reviews/hostaway?sort=rating:desc&minRating=4.4''))
     = metrics_overall (resp_metrics (buildHostawayResponse exampleHost ''2024-03-02T09:00:05.000Z'' exampleCorpus []
       ''http://localhost/api/reviews/hostaway?search=flat''))"
  using C9_meta_and_overall_ignore_query [of exampleHost "''2024-03-02T09:00:00.000Z''" exampleCorpus "[]"
      "''http://localhost/api/reviews/hostaway?sort=rating:desc&minRating=4.4''"
      "''2024-03-02T09:00:05.000Z''" "''http://localhost/api/reviews/hostaway?search=flat''"]
  by (elim conjE) (intro conjI)

section \<open>Clauses of the filter\<close>

lemma if_False_conj: "(if c then False else x) = (\<not> c \<and> x)"
  by simp

lemma parseDate_truthy: "(if truthy v then parseDate H v else None) = parseDate H v"
  by (simp add: truthy_def parseDate_def split: option.splits)



lemma matchesFilters_dates:
  "matchesFilters H r f \<longleftrightarrow>
     matchesFilters H r (f\<lparr>rf_startDate := None, rf_endDate := None\<rparr>)
     \<and> (parseDate H (rf_startDate f) = None \<and> parseDate H (rf_endDate f) = None
        \<or> (case parseDate H (Some (nr_submittedAt r)) of
              None \<Rightarrow> False
            | Some submitted \<Rightarrow>
                (case parseDate H (rf_startDate f) of None \<Rightarrow> True | Some sd \<Rightarrow> sd \<le> submitted)
                \<and> (case parseDate H (rf_endDate f) of None \<Rightarrow> True | Some ed \<Rightarrow> submitted \<le> ed)))"
proof -
  have n: "parseDate H None = None" by (simp add: parseDate_def)
  show ?thesis
    unfolding matchesFilters_def Let_def parseDate_truthy if_False_conj
    by (cases "parseDate H (Some (nr_submittedAt r))"; cases "parseDate H (rf_startDate f)";
        cases "parseDate H (rf_endDate f)") (auto simp: n not_less cong: option.case_cong)
qed

lemma matchesFilters_noFilters: "matchesFilters H r noFilters"
  by (simp add: matchesFilters_def noFilters_def truthy_def parseDate_def)

lemma noFilters_dates:
  "rf_startDate noFilters = None" "rf_endDate noFilters = None"
  "noFilters\<lparr>rf_startDate := None, rf_endDate := None\<rparr> = noFilters"
  by (simp_all add: noFilters_def)



section \<open>Full-text search\<close>




section \<open>Date range and reviews without a date\<close>

lemma exampleHost_epoch:
  "dateToISOString exampleHost 0 = ''1970-01-01T00:00:00.000Z''"
  "dateParse exampleHost ''1970-01-01T00:00:00.000Z'' = Some 0"
  "dateParse exampleHost ''1960-01-01'' = Some (- 315619200000)"
  "dateParse exampleHost ''2024-03-01T10:00:00.000Z'' = Some 1709287200000"
  by (simp_all add: exampleHost_def)

text \<open>
  Claim C6 as stated fails: a review without a submission timestamp matches a filter
  whose start date is 1 January 1960.
\<close>

theorem C6_counterexample:
  "hr_submittedAt undatedReview = None
   \<and> matchesFilters exampleHost (normalizeReview exampleHost [] undatedReview)
        (noFilters\<lparr>rf_startDate := Some ''1960-01-01''\<rparr>)"
proof -
  have u: "hr_submittedAt undatedReview = None" by (simp add: undatedReview_def)
  have "matchesFilters exampleHost (normalizeReview exampleHost [] undatedReview)
        (noFilters\<lparr>rf_startDate := Some ''1960-01-01''\<rparr>)"
    by (subst matchesFilters_dates)
       (simp add: noFilters_dates matchesFilters_noFilters normalize_submittedAt u parseDate_def exampleHost_epoch)
  then show ?thesis using u by simp
qed

text \<open>
  Claim C6, amended. A raw review whose submission timestamp is missing or unparseable
  is normalized to the epoch-zero instant and is compared with the bounds at that
  instant: beyond the other predicates of the filter, it matches if and only if no
  parseable start date lies after the epoch and no parseable end date lies before it.
  The host is one that parses its own print of the epoch.
\<close>

theorem C6_undated_review_compared_at_epoch:
  assumes "parseDate H (hr_submittedAt r) = None"
    and "dateToISOString H 0 \<noteq> []"
    and "dateParse H (dateToISOString H 0) = Some 0"
  shows "nr_submittedAt (normalizeReview H store r) = dateToISOString H 0
         \<and> (matchesFilters H (normalizeReview H store r) f \<longleftrightarrow>
              matchesFilters H (normalizeReview H store r) (f\<lparr>rf_startDate := None, rf_endDate := None\<rparr>)
              \<and> (case parseDate H (rf_startDate f) of None \<Rightarrow> True | Some sd \<Rightarrow> sd \<le> 0)
              \<and> (case parseDate H (rf_endDate f) of None \<Rightarrow> True | Some ed \<Rightarrow> 0 \<le> ed))"
proof -
  have s: "nr_submittedAt (normalizeReview H store r) = dateToISOString H 0"
    using assms(1) by (simp add: normalize_submittedAt)
  have p: "parseDate H (Some (dateToISOString H 0)) = Some 0"
    using assms(2,3) by (simp add: parseDate_def)
  have "matchesFilters H (normalizeReview H store r) f \<longleftrightarrow>
          matchesFilters H (normalizeReview H store r) (f\<lparr>rf_startDate := None, rf_endDate := None\<rparr>)
          \<and> (case parseDate H (rf_startDate f) of None \<Rightarrow> True | Some sd \<Rightarrow> sd \<le> 0)
          \<and> (case parseDate H (rf_endDate f) of None \<Rightarrow> True | Some ed \<Rightarrow> 0 \<le> ed)"
    by (subst matchesFilters_dates) (auto simp: s p split: option.splits)
  then show ?thesis using s by simp
qed

text \<open>The amended C6 on the example host, with a start date in 2024.\<close>

theorem C6_undated_review_compared_at_epoch_witness:
  "parseDate exampleHost (hr_submittedAt undatedReview) = None
   \<and> dateToISOString exampleHost 0 \<noteq> []
   \<and> dateParse exampleHost (dateToISOString exampleHost 0) = Some 0
   \<and> nr_submittedAt (normalizeReview exampleHost [] undatedReview) = ''1970-01-01T00:00:00.000Z''
   \<and> \<not> matchesFilters exampleHost (normalizeReview exampleHost [] undatedReview)
          (noFilters\<lparr>rf_startDate := Some ''2024-03-01T10:00:00.000Z''\<rparr>)"
proof -
  have a: "parseDate exampleHost (hr_submittedAt undatedReview) = None"
    by (simp add: undatedReview_def parseDate_def)
  have b: "dateToISOString exampleHost 0 \<noteq> []" by (simp add: exampleHost_epoch)
  have c: "dateParse exampleHost (dateToISOString exampleHost 0) = Some 0"
    by (simp add: exampleHost_epoch)
  have d: "parseDate exampleHost (rf_startDate (noFilters\<lparr>rf_startDate := Some ''2024-03-01T10:00:00.000Z''\<rparr>))
             = Some 1709287200000"
    by (simp add: parseDate_def exampleHost_epoch)
  show ?thesis
    using a b c d
      C6_undated_review_compared_at_epoch [OF a b c, of "[]"
        "noFilters\<lparr>rf_startDate := Some ''2024-03-01T10:00:00.000Z''\<rparr>"]
    by (simp add: exampleHost_epoch)
qed

section \<open>The sort as stable insertion\<close>

lemma set_sortInsert: "set (sortInsert cmp x ys) = insert x (set ys)"
  by (induction ys) auto

lemma set_arraySort: "set (arraySort cmp xs) = set xs"
  by (induction xs) (simp_all add: arraySort_def set_sortInsert)

lemma arraySort_Cons: "arraySort cmp (x # xs) = sortInsert cmp x (arraySort cmp xs)"
  by (simp add: arraySort_def)

lemma arraySort_Nil: "arraySort cmp [] = []"
  by (simp add: arraySort_def)

lemma sortInsert_sorted:
  assumes tr: "\<And>a b c. R a b \<Longrightarrow> R b c \<Longrightarrow> R a c"
    and pos: "\<And>y. y \<in> set ys \<Longrightarrow> jsPositive (cmp x y) \<Longrightarrow> R y x"
    and npos: "\<And>y. y \<in> set ys \<Longrightarrow> \<not> jsPositive (cmp x y) \<Longrightarrow> R x y"
    and srt: "sorted_wrt R ys"
  shows "sorted_wrt R (sortInsert cmp x ys)"
  using pos npos srt
proof (induction ys)
  case Nil
  then show ?case by simp
next
  case (Cons y ys)
  show ?case
  proof (cases "jsPositive (cmp x y)")
    case True
    have "sorted_wrt R (sortInsert cmp x ys)"
      using Cons by simp
    moreover have "R y x" using Cons.prems(1) True by simp
    moreover have "\<forall>z \<in> set ys. R y z" using Cons.prems(3) by simp
    ultimately show ?thesis using True by (simp add: set_sortInsert)
  next
    case False
    have xy: "R x y" using Cons.prems(2) False by simp
    have "\<forall>z \<in> set ys. R x z"
      using Cons.prems(3) xy tr by auto
    then show ?thesis using False xy Cons.prems(3) by simp
  qed
qed

lemma arraySort_sorted:
  assumes tr: "\<And>a b c. R a b \<Longrightarrow> R b c \<Longrightarrow> R a c"
    and pos: "\<And>x y. jsPositive (cmp x y) \<Longrightarrow> R y x"
    and npos: "\<And>x y. \<not> jsPositive (cmp x y) \<Longrightarrow> R x y"
  shows "sorted_wrt R (arraySort cmp xs)"
proof (induction xs)
  case Nil
  then show ?case by (simp add: arraySort_Nil)
next
  case (Cons x xs)
  show ?case
    unfolding arraySort_Cons
    by (rule sortInsert_sorted [where R = R]) (use tr pos npos Cons.IH in blast)+
qed

lemma filter_sortInsert:
  assumes "\<And>y. y \<in> set ys \<Longrightarrow> P x \<Longrightarrow> P y \<Longrightarrow> \<not> jsPositive (cmp x y)"
  shows "filter P (sortInsert cmp x ys) = filter P (x # ys)"
  using assms by (induction ys) auto

lemma filter_arraySort:
  assumes "\<And>x y. P x \<Longrightarrow> P y \<Longrightarrow> \<not> jsPositive (cmp x y)"
  shows "filter P (arraySort cmp xs) = filter P xs"
proof (induction xs)
  case Nil
  then show ?case by (simp add: arraySort_Nil)
next
  case (Cons x xs)
  have "filter P (sortInsert cmp x (arraySort cmp xs)) = filter P (x # arraySort cmp xs)"
    by (rule filter_sortInsert) (use assms in blast)
  then show ?case using Cons.IH by (simp add: arraySort_Cons)
qed

section \<open>Sorting by rating\<close>

lemma splitOn_sortSpecs:
  "splitOn CHR '':'' ''rating:desc'' = [''rating'', ''desc'']"
  "splitOn CHR '':'' ''rating:asc'' = [''rating'', ''asc'']"
  by simp_all

lemma applySorting_rating:
  "applySorting H rs (Some ''rating:desc'') =
     arraySort (\<lambda>a b. jsMul (jsMul (jsSub (ratingValue a) (ratingValue b)) (Finite (- 1))) (Finite (- 1))) rs"
  "applySorting H rs (Some ''rating:asc'') =
     arraySort (\<lambda>a b. jsMul (jsMul (jsSub (ratingValue a) (ratingValue b)) (Finite 1)) (Finite (- 1))) rs"
  by (simp_all add: applySorting_def truthy_def Let_def splitOn_sortSpecs)

lemma ratingCompare_desc:
  "jsPositive (jsMul (jsMul (jsSub (ratingValue a) (ratingValue b)) (Finite (- 1))) (Finite (- 1)))
     \<longleftrightarrow> \<not> averageGe (nr_normalizedRating b) (nr_normalizedRating a)"
  by (cases "nr_normalizedRating a"; cases "nr_normalizedRating b") (auto simp: ratingValue_def)

lemma ratingCompare_asc:
  "jsPositive (jsMul (jsMul (jsSub (ratingValue a) (ratingValue b)) (Finite 1)) (Finite (- 1)))
     \<longleftrightarrow> \<not> averageGe (nr_normalizedRating a) (nr_normalizedRating b)"
  by (cases "nr_normalizedRating a"; cases "nr_normalizedRating b") (auto simp: ratingValue_def)

lemma averageGe_trans: "averageGe a b \<Longrightarrow> averageGe b c \<Longrightarrow> averageGe a c"
  by (cases a; cases b; cases c) auto

lemma averageGe_total: "\<not> averageGe a b \<Longrightarrow> averageGe b a"
  by (cases a; cases b) auto

text \<open>
  For every list the spec \<^verbatim>\<open>rating:desc\<close> orders the ratings ascending with null first,
  and \<^verbatim>\<open>rating:asc\<close> descending with null last.
\<close>

lemma applySorting_rating_desc_ascends:
  "sorted_wrt (\<lambda>a b. averageGe (nr_normalizedRating b) (nr_normalizedRating a))
     (applySorting H rs (Some ''rating:desc''))"
  unfolding applySorting_rating
  by (rule arraySort_sorted) (auto simp: ratingCompare_desc ratingCompare_asc intro: averageGe_trans averageGe_total)

lemma applySorting_rating_asc_descends:
  "sorted_wrt (\<lambda>a b. averageGe (nr_normalizedRating a) (nr_normalizedRating b))
     (applySorting H rs (Some ''rating:asc''))"
  unfolding applySorting_rating
  by (rule arraySort_sorted) (auto simp: ratingCompare_desc ratingCompare_asc intro: averageGe_trans averageGe_total)

lemma example_ratings:
  "nr_normalizedRating (normalizeReview exampleHost [] fiveStarReview) = Some 5"
  "nr_normalizedRating (normalizeReview exampleHost [] threeStarReview) = Some 3"
  "nr_normalizedRating (normalizeReview exampleHost [] unratedReview) = None"
  by (simp_all add: normalize_normalizedRating fiveStarReview_def threeStarReview_def
      unratedReview_def exampleReview_def detectScale_def normalizeValueToTarget_def
      NORMALIZED_TARGET_SCALE_def toFixed2_def)

text \<open>
  Claim C3, evaluated where the code departs from it. On reviews rated 5, unrated and
  3, the spec \<^verbatim>\<open>rating:desc\<close> returns the ratings in the order null, 3, 5 (ascending, null
  first), and \<^verbatim>\<open>rating:asc\<close> returns 5, 3, null (descending, null last): the two
  directions are exchanged.
\<close>

theorem C3_rating_sort_inverted:
  "map nr_normalizedRating
     (applySorting exampleHost
        (map (normalizeReview exampleHost []) [fiveStarReview, unratedReview, threeStarReview])
        (Some ''rating:desc''))
     = [None, Some 3, Some 5]
   \<and> map nr_normalizedRating
       (applySorting exampleHost
          (map (normalizeReview exampleHost []) [threeStarReview, unratedReview, fiveStarReview])
          (Some ''rating:asc''))
     = [Some 5, Some 3, None]"
  by (simp add: applySorting_rating arraySort_Cons arraySort_Nil ratingCompare_desc ratingCompare_asc
      example_ratings)

section \<open>Order of the listing summaries\<close>

lemma summarize_fields:
  "ls_averageRating (summarize H (info, rs)) = average (map nr_normalizedRating rs)"
  "ls_listingName (summarize H (info, rs)) = nr_listingName info"
  by (simp_all add: summarize_def Let_def)

lemma average_single: "average [v] = map_option toFixed2 v"
  by (cases v) (simp_all add: average_def List.map_filter_def)

lemma collation_total:
  assumes "collationOrder H" and "localeCompare H a b > 0"
  shows "localeCompare H b a \<le> 0"
  using assms unfolding collationOrder_def by blast

lemma summaryCompare_positive:
  assumes "collationOrder H" and "jsPositive (summaryCompare H x y)"
  shows "averageGe (ls_averageRating y) (ls_averageRating x)
         \<and> (ls_averageRating y = None \<and> ls_averageRating x = None
              \<longrightarrow> localeCompare H (ls_listingName y) (ls_listingName x) \<le> 0)"
proof (cases "ls_averageRating x")
  case None
  show ?thesis
  proof (cases "ls_averageRating y")
    case n: None
    have "localeCompare H (ls_listingName x) (ls_listingName y) > 0"
      using assms(2) None n by (simp add: summaryCompare_def)
    then show ?thesis using collation_total [OF assms(1)] None n by simp
  next
    case (Some b)
    then show ?thesis using None by simp
  qed
next
  case (Some a)
  then show ?thesis
    using assms(2) by (cases "ls_averageRating y") (simp_all add: summaryCompare_def)
qed

lemma summaryCompare_not_positive:
  assumes "\<not> jsPositive (summaryCompare H x y)"
  shows "averageGe (ls_averageRating x) (ls_averageRating y)
         \<and> (ls_averageRating x = None \<and> ls_averageRating y = None
              \<longrightarrow> localeCompare H (ls_listingName x) (ls_listingName y) \<le> 0)"
  using assms
  by (cases "ls_averageRating x"; cases "ls_averageRating y")
     (auto simp: summaryCompare_def)

lemma summaryCompare_equal_averages:
  assumes "ls_averageRating x = Some v" and "ls_averageRating y = Some v"
  shows "\<not> jsPositive (summaryCompare H x y)"
  using assms by (simp add: summaryCompare_def)

lemma summary_relation_trans:
  assumes "collationOrder H"
    and "averageGe (ls_averageRating a) (ls_averageRating b)
         \<and> (ls_averageRating a = None \<and> ls_averageRating b = None
              \<longrightarrow> localeCompare H (ls_listingName a) (ls_listingName b) \<le> 0)"
    and "averageGe (ls_averageRating b) (ls_averageRating c)
         \<and> (ls_averageRating b = None \<and> ls_averageRating c = None
              \<longrightarrow> localeCompare H (ls_listingName b) (ls_listingName c) \<le> 0)"
  shows "averageGe (ls_averageRating a) (ls_averageRating c)
         \<and> (ls_averageRating a = None \<and> ls_averageRating c = None
              \<longrightarrow> localeCompare H (ls_listingName a) (ls_listingName c) \<le> 0)"
proof (intro conjI impI)
  show "averageGe (ls_averageRating a) (ls_averageRating c)"
    using assms(2,3) averageGe_trans by blast
next
  assume n: "ls_averageRating a = None \<and> ls_averageRating c = None"
  have "ls_averageRating b = None"
    using assms(2) n by (cases "ls_averageRating b") auto
  then have "localeCompare H (ls_listingName a) (ls_listingName b) \<le> 0"
    "localeCompare H (ls_listingName b) (ls_listingName c) \<le> 0"
    using assms(2,3) n by auto
  then show "localeCompare H (ls_listingName a) (ls_listingName c) \<le> 0"
    using assms(1) unfolding collationOrder_def by blast
qed

text \<open>
  Claim C7, amended. The listing summaries are sorted by normalized average rating
  descending with null averages last; two summaries whose averages are both null appear
  in ascending order of listing name, under a collation that is a total preorder; and
  summaries with equal non-null averages keep the order in which their listings were
  first seen.
\<close>

theorem C7_summaries_order:
  assumes "collationOrder H"
  shows "summaryOrder H (buildListingSummaries H reviews)
         \<and> filter (\<lambda>s. ls_averageRating s = Some v) (buildListingSummaries H reviews)
           = filter (\<lambda>s. ls_averageRating s = Some v)
               (map (summarize H) (map snd (groupByListing reviews)))"
proof
  show "summaryOrder H (buildListingSummaries H reviews)"
    unfolding summaryOrder_def buildListingSummaries_def
  proof (rule arraySort_sorted)
    fix a b c
    assume "averageGe (ls_averageRating a) (ls_averageRating b)
         \<and> (ls_averageRating a = None \<and> ls_averageRating b = None
              \<longrightarrow> localeCompare H (ls_listingName a) (ls_listingName b) \<le> 0)"
      and "averageGe (ls_averageRating b) (ls_averageRating c)
         \<and> (ls_averageRating b = None \<and> ls_averageRating c = None
              \<longrightarrow> localeCompare H (ls_listingName b) (ls_listingName c) \<le> 0)"
    then show "averageGe (ls_averageRating a) (ls_averageRating c)
         \<and> (ls_averageRating a = None \<and> ls_averageRating c = None
              \<longrightarrow> localeCompare H (ls_listingName a) (ls_listingName c) \<le> 0)"
      by (rule summary_relation_trans [OF assms])
  next
    fix x y
    assume "jsPositive (summaryCompare H x y)"
    then show "averageGe (ls_averageRating y) (ls_averageRating x)
         \<and> (ls_averageRating y = None \<and> ls_averageRating x = None
              \<longrightarrow> localeCompare H (ls_listingName y) (ls_listingName x) \<le> 0)"
      by (rule summaryCompare_positive [OF assms])
  next
    fix x y
    assume "\<not> jsPositive (summaryCompare H x y)"
    then show "averageGe (ls_averageRating x) (ls_averageRating y)
         \<and> (ls_averageRating x = None \<and> ls_averageRating y = None
              \<longrightarrow> localeCompare H (ls_listingName x) (ls_listingName y) \<le> 0)"
      by (rule summaryCompare_not_positive)
  qed
next
  show "filter (\<lambda>s. ls_averageRating s = Some v) (buildListingSummaries H reviews)
           = filter (\<lambda>s. ls_averageRating s = Some v)
               (map (summarize H) (map snd (groupByListing reviews)))"
    unfolding buildListingSummaries_def
    by (rule filter_arraySort) (rule summaryCompare_equal_averages)
qed

lemma groupByListing_two:
  assumes "nr_listingId r1 \<noteq> nr_listingId r2"
  shows "groupByListing [r1, r2]
           = [(nr_listingId r1, (r1, [r1])), (nr_listingId r2, (r2, [r2]))]"
  using assms by (simp add: groupByListing_def mapHas_def Let_def)

lemma buildListingSummaries_two:
  assumes "nr_listingId r1 \<noteq> nr_listingId r2"
  shows "buildListingSummaries H [r1, r2]
           = (if jsPositive (summaryCompare H (summarize H (r1, [r1])) (summarize H (r2, [r2])))
              then [summarize H (r2, [r2]), summarize H (r1, [r1])]
              else [summarize H (r1, [r1]), summarize H (r2, [r2])])"
  by (simp add: buildListingSummaries_def groupByListing_two [OF assms] arraySort_Cons arraySort_Nil)

lemma zetaAlpha_raw:
  "hr_listingId zetaReview = 301" "hr_listingName zetaReview = ''Zeta House''"
  "hr_rating zetaReview = Some 9" "hr_ratingScale zetaReview = None"
  "hr_listingId alphaReview = 302" "hr_listingName alphaReview = ''Alpha House''"
  "hr_rating alphaReview = Some 9" "hr_ratingScale alphaReview = None"
  by (simp_all add: zetaReview_def alphaReview_def exampleReview_def)

lemma zetaAlpha_names:
  "sanitizeAndFallback (Some ''Zeta House'') ''Flex Living Listing'' = ''Zeta House''"
  "sanitizeAndFallback (Some ''Alpha House'') ''Flex Living Listing'' = ''Alpha House''"
  by (simp_all add: sanitizeAndFallback_def sanitizeText_def trim_def isWhiteSpace_def
      isControl_def isHtmlDangerous_def Let_def)

lemma exampleHost_collation:
  "localeCompare exampleHost a b = (if a < b then - 1 else if b < a then 1 else 0)"
  by (simp add: exampleHost_def)

lemma nine_of_ten:
  "normalizeValueToTarget (Some 9) (detectScale (Some 9) None) NORMALIZED_TARGET_SCALE = Some (9 / 2)"
  "toFixed2 (9 / 2) = 9 / 2"
  "normalizeValueToTarget None s NORMALIZED_TARGET_SCALE = None"
  by (simp_all add: detectScale_def normalizeValueToTarget_def NORMALIZED_TARGET_SCALE_def
      toFixed2_def)

text \<open>
  Claim C7 as stated fails: Zeta House and Alpha House both average 4.5, and Zeta
  House, seen first, stays before Alpha House.
\<close>

theorem C7_counterexample:
  "map ls_listingName (buildListingSummaries exampleHost zetaAlphaRated)
     = [''Zeta House'', ''Alpha House'']
   \<and> map ls_averageRating (buildListingSummaries exampleHost zetaAlphaRated)
     = [Some (45 / 10), Some (45 / 10)]
   \<and> \<not> specSummaryOrder exampleHost (buildListingSummaries exampleHost zetaAlphaRated)"
proof -
  let ?z = "normalizeReview exampleHost [] zetaReview"
  let ?a = "normalizeReview exampleHost [] alphaReview"
  have ids: "nr_listingId ?z \<noteq> nr_listingId ?a"
    by (simp add: normalize_listingId zetaAlpha_raw)
  have f: "ls_averageRating (summarize exampleHost (?z, [?z])) = Some (45 / 10)"
    "ls_averageRating (summarize exampleHost (?a, [?a])) = Some (45 / 10)"
    "ls_listingName (summarize exampleHost (?z, [?z])) = ''Zeta House''"
    "ls_listingName (summarize exampleHost (?a, [?a])) = ''Alpha House''"
    by (simp_all add: summarize_fields average_single normalize_normalizedRating
        normalize_listingName zetaAlpha_raw zetaAlpha_names nine_of_ten)
  have b: "buildListingSummaries exampleHost zetaAlphaRated
             = [summarize exampleHost (?z, [?z]), summarize exampleHost (?a, [?a])]"
    unfolding zetaAlphaRated_def list.map
    by (subst buildListingSummaries_two [OF ids]) (simp add: summaryCompare_def f)
  show ?thesis
    by (simp add: b f specSummaryOrder_def exampleHost_collation)
qed

text \<open>
  The amended C7 on the example host, for the two listings without ratings: both
  averages are null and Alpha House comes first.
\<close>

theorem C7_summaries_order_witness:
  "collationOrder exampleHost
   \<and> map ls_listingName (buildListingSummaries exampleHost zetaAlphaUnrated)
     = [''Alpha House'', ''Zeta House'']
   \<and> map ls_averageRating (buildListingSummaries exampleHost zetaAlphaUnrated)
     = [None, None]
   \<and> summaryOrder exampleHost (buildListingSummaries exampleHost zetaAlphaUnrated)"
proof -
  let ?z = "normalizeReview exampleHost [] (zetaReview\<lparr>hr_rating := None\<rparr>)"
  let ?a = "normalizeReview exampleHost [] (alphaReview\<lparr>hr_rating := None\<rparr>)"
  have c: "collationOrder exampleHost"
    unfolding collationOrder_def exampleHost_collation by (auto split: if_splits)
  have ids: "nr_listingId ?z \<noteq> nr_listingId ?a"
    by (simp add: normalize_listingId zetaAlpha_raw)
  have f: "ls_averageRating (summarize exampleHost (?z, [?z])) = None"
    "ls_averageRating (summarize exampleHost (?a, [?a])) = None"
    "ls_listingName (summarize exampleHost (?z, [?z])) = ''Zeta House''"
    "ls_listingName (summarize exampleHost (?a, [?a])) = ''Alpha House''"
    by (simp_all add: summarize_fields average_single normalize_normalizedRating
        normalize_listingName zetaAlpha_raw zetaAlpha_names nine_of_ten)
  have b: "buildListingSummaries exampleHost zetaAlphaUnrated
             = [summarize exampleHost (?a, [?a]), summarize exampleHost (?z, [?z])]"
    unfolding zetaAlphaUnrated_def list.map
    by (subst buildListingSummaries_two [OF ids])
       (simp add: summaryCompare_def f exampleHost_collation)
  have "summaryOrder exampleHost (buildListingSummaries exampleHost zetaAlphaUnrated)"
    using C7_summaries_order [OF c, of zetaAlphaUnrated] by (rule conjunct1)
  then show ?thesis using c by (simp add: b f)
qed

section \<open>Category averages\<close>





















end
